theory Spec2Isabelle
  imports Complex_Main "HOL-Library.Monad_Syntax"
begin

section \<open>JavaScript strings\<close>

text \<open>
  A JavaScript string is a sequence of UTF-16 code units; a code unit is modelled as a
  natural number. The Spanish phrases of the source use these code units outside ASCII:
  191 (inverted question mark), 225 (a acute), 233 (e acute), 237 (i acute),
  241 (n tilde), 243 (o acute), 250 (u acute); 39 is the apostrophe.
  \<open>str\<close> embeds an ASCII literal.

  Numbers are modelled exactly: counts are integers, scores are rationals (the source
  computes them in IEEE doubles).
\<close>

type_synonym jsstring = "nat list"

definition str :: "string \<Rightarrow> jsstring" where
  "str s = map of_char s"

text \<open>
  \<^verbatim>\<open>String.prototype.toLowerCase\<close>, on the Basic Latin and Latin-1 Supplement blocks
  (code units below 256): A-Z and the accented capitals 192-222 except the multiplication
  sign 215 move up by 32. Code units from 256 on are left as they are. The texts
  evaluated below are ASCII, and the properties stated for every text speak of the counts
  on the lower-cased text, whatever the case mapping is.
\<close>

definition toLowerCaseUnit :: "nat \<Rightarrow> nat" where
  "toLowerCaseUnit c =
     (if 65 \<le> c \<and> c \<le> 90 then c + 32
      else if 192 \<le> c \<and> c \<le> 222 \<and> c \<noteq> 215 then c + 32
      else c)"

definition toLowerCase :: "jsstring \<Rightarrow> jsstring" where
  "toLowerCase s = map toLowerCaseUnit s"

text \<open>\<open>startsWith s p\<close>: the code units of \<open>p\<close> are the first code units of \<open>s\<close>.\<close>

fun startsWith :: "jsstring \<Rightarrow> jsstring \<Rightarrow> bool" where
  "startsWith s [] = True"
| "startsWith [] (p # ps) = False"
| "startsWith (c # cs) (p # ps) = (c = p \<and> startsWith cs ps)"

text \<open>
  \<^verbatim>\<open>s.split(sep)\<close> for a string separator: the pieces between the occurrences of
  \<open>sep\<close>, found from left to right, each search starting behind the previous occurrence.
  The empty separator splits into single code units. \<open>splitFrom sep acc s\<close> has read
  \<open>rev acc\<close> of the current piece and still has \<open>s\<close> to read.
\<close>

function splitFrom :: "jsstring \<Rightarrow> jsstring \<Rightarrow> jsstring \<Rightarrow> jsstring list" where
  "splitFrom sep acc [] = [rev acc]"
| "splitFrom sep acc (c # cs) =
     (if sep \<noteq> [] \<and> startsWith (c # cs) sep
      then rev acc # splitFrom sep [] (drop (length sep) (c # cs))
      else splitFrom sep (c # acc) cs)"
  by pat_completeness auto
termination
  by (relation "measure (\<lambda>(sep, acc, s). length s)") (auto simp: neq_Nil_conv)

definition splitString :: "jsstring \<Rightarrow> jsstring \<Rightarrow> jsstring list" where
  "splitString s sep = (if sep = [] then map (\<lambda>c. [c]) s else splitFrom sep [] s)"

text \<open>\<^verbatim>\<open>s.includes(p)\<close>: \<open>p\<close> occurs in \<open>s\<close>.\<close>

fun stringIncludes :: "jsstring \<Rightarrow> jsstring \<Rightarrow> bool" where
  "stringIncludes [] p = (p = [])"
| "stringIncludes (c # cs) p = (startsWith (c # cs) p \<or> stringIncludes cs p)"

text \<open>
  \<^verbatim>\<open>s.trim()\<close> removes white space and line terminators at both ends: tab, line feed,
  vertical tab, form feed, carriage return, space, no-break space, the space separators
  of Unicode, the line and paragraph separators and the byte order mark.
\<close>

definition isWhiteSpace :: "nat \<Rightarrow> bool" where
  "isWhiteSpace c =
     (c \<in> {9, 10, 11, 12, 13, 32, 160, 5760, 8232, 8233, 8239, 8287, 12288, 65279}
      \<or> (8192 \<le> c \<and> c \<le> 8202))"

definition trimString :: "jsstring \<Rightarrow> jsstring" where
  "trimString s = rev (dropWhile isWhiteSpace (rev (dropWhile isWhiteSpace s)))"

text \<open>
  \<^verbatim>\<open>text.split(/[.!?]+/)\<close>: the pieces between the maximal runs of full stops,
  exclamation marks and question marks (code units 46, 33, 63).
\<close>

definition isSentenceEnd :: "nat \<Rightarrow> bool" where
  "isSentenceEnd c = (c = 46 \<or> c = 33 \<or> c = 63)"

function splitSentencesFrom :: "jsstring \<Rightarrow> jsstring \<Rightarrow> jsstring list" where
  "splitSentencesFrom acc [] = [rev acc]"
| "splitSentencesFrom acc (c # cs) =
     (if isSentenceEnd c
      then rev acc # splitSentencesFrom [] (dropWhile isSentenceEnd cs)
      else splitSentencesFrom (c # acc) cs)"
  by pat_completeness auto
termination
  by (relation "measure (\<lambda>(acc, s). length s)")
     (auto simp: less_Suc_eq_le length_dropWhile_le)

definition splitSentences :: "jsstring \<Rightarrow> jsstring list" where
  "splitSentences s = splitSentencesFrom [] s"

section \<open>The argument analysis agent (a2a-agent.js)\<close>

subsection \<open>Indicator phrases\<close>

definition introIndicators :: "jsstring list" where
  "introIndicators =
     [str ''introducci'' @ [243] @ str ''n'', str ''en primer lugar'', str ''para comenzar'',
      str ''inicialmente'']"

definition conclusionIndicators :: "jsstring list" where
  "conclusionIndicators =
     [str ''en conclusi'' @ [243] @ str ''n'', str ''finalmente'', str ''para terminar'',
      str ''en resumen'']"

definition coherenceIndicators :: "jsstring list" where
  "coherenceIndicators =
     [str ''por lo tanto'', str ''en consecuencia'', str ''adem'' @ [225] @ str ''s'',
      str ''sin embargo'', str ''por otro lado'']"

definition structureIndicators :: "jsstring list" where
  "structureIndicators =
     [str ''primero'', str ''segundo'', str ''tercero'', str ''finalmente'',
      str ''en primer lugar'']"

definition thesisIndicators :: "jsstring list" where
  "thesisIndicators =
     [str ''creo que'', str ''mi opini'' @ [243] @ str ''n'', str ''considero'',
      str ''mi posici'' @ [243] @ str ''n'', str ''estoy convencido'']"

definition depthIndicators :: "jsstring list" where
  "depthIndicators =
     [str ''analizar'', str ''examinar'', str ''investigar'', str ''profundizar'',
      str ''detallar'']"

definition breadthIndicators :: "jsstring list" where
  "breadthIndicators =
     [str ''adem'' @ [225] @ str ''s'', str ''tambi'' @ [233] @ str ''n'',
      str ''por otro lado'', str ''asimismo'', str ''igualmente'']"

definition connectionIndicators :: "jsstring list" where
  "connectionIndicators =
     [str ''por lo tanto'', str ''en consecuencia'', str ''esto demuestra'',
      str ''se puede concluir'', str ''debido a'']"

definition fallacyIndicators :: "jsstring list" where
  "fallacyIndicators =
     [str ''todos'', str ''nunca'', str ''siempre'', str ''nadie'', str ''todo el mundo'']"

text \<open>The object \<^verbatim>\<open>evidenceTypes\<close> of \<^verbatim>\<open>extractEvidenceIndicators\<close>, in key order.\<close>

definition evidenceTypesTable :: "(jsstring \<times> jsstring list) list" where
  "evidenceTypesTable =
     [(str ''statistics'',
         [str ''porcentaje'', str ''estad'' @ [237] @ str ''stica'', str ''dato'', str ''cifra'']),
      (str ''examples'',
         [str ''ejemplo'', str ''caso'', str ''instancia'', str ''muestra'']),
      (str ''quotes'',
         [str ''cita'', str ''dice'', str ''menciona'', str ''afirma'']),
      (str ''references'',
         [str ''seg'' @ [250] @ str ''n'', str ''fuente'', str ''referencia'', str ''estudio''])]"

definition sourceIndicators :: "jsstring list" where
  "sourceIndicators =
     [str ''seg'' @ [250] @ str ''n'', str ''fuente'', str ''referencia'', str ''cita'',
      str ''dice que'', str ''menciona'']"

definition questionIndicators :: "jsstring list" where
  "questionIndicators =
     [[191], str ''por qu'' @ [233], str ''c'' @ [243] @ str ''mo'', str ''qu'' @ [233],
      str ''cu'' @ [225] @ str ''ndo'', str ''d'' @ [243] @ str ''nde'']"

definition analysisIndicators :: "jsstring list" where
  "analysisIndicators =
     [str ''analizar'', str ''examinar'', str ''investigar'', str ''estudiar'', str ''evaluar'']"

definition evaluationIndicators :: "jsstring list" where
  "evaluationIndicators =
     [str ''evaluar'', str ''juzgar'', str ''valorar'', str ''considerar'', str ''ponderar'']"

definition synthesisIndicators :: "jsstring list" where
  "synthesisIndicators =
     [str ''sintetizar'', str ''combinar'', str ''integrar'', str ''unificar'',
      str ''consolidar'']"

definition metacognitionIndicators :: "jsstring list" where
  "metacognitionIndicators =
     [str ''reflexionar'', str ''pensar sobre'', str ''considerar'', str ''meditar'',
      str ''contemplar'']"

definition personalIndicators :: "jsstring list" where
  "personalIndicators =
     [str ''mi experiencia'', str ''creo que'', str ''pienso que'',
      str ''mi opini'' @ [243] @ str ''n'', str ''considero'']"

definition creativeIndicators :: "jsstring list" where
  "creativeIndicators =
     [str ''imaginemos'', str ''supongamos'', str ''crear'', str ''dise'' @ [241] @ str ''ar'',
      str ''innovar'']"

subsection \<open>Counting\<close>

text \<open>
  The expression every \<^verbatim>\<open>assess...\<close> and \<^verbatim>\<open>detect...\<close> method of the agent repeats:
  \<^verbatim>\<open>indicators.reduce((sum, indicator) =>
      sum + (text.toLowerCase().split(indicator).length - 1), 0)\<close>.
\<close>

definition occurrences :: "jsstring \<Rightarrow> jsstring \<Rightarrow> int" where
  "occurrences text indicator = int (length (splitString (toLowerCase text) indicator)) - 1"

definition indicatorCount :: "jsstring \<Rightarrow> jsstring list \<Rightarrow> int" where
  "indicatorCount text indicators =
     foldl (\<lambda>sum indicator. sum + occurrences text indicator) 0 indicators"

text \<open>\<^verbatim>\<open>indicators.some((indicator) => text.toLowerCase().includes(indicator))\<close>\<close>

definition someIncluded :: "jsstring \<Rightarrow> jsstring list \<Rightarrow> bool" where
  "someIncluded text indicators =
     list_ex (\<lambda>indicator. stringIncludes (toLowerCase text) indicator) indicators"

subsection \<open>Helper methods of the analysis\<close>

definition detectIntroduction :: "jsstring \<Rightarrow> bool" where
  "detectIntroduction text = someIncluded text introIndicators"

definition detectBody :: "jsstring \<Rightarrow> bool" where
  "detectBody text = (length text > 100)"

definition detectConclusion :: "jsstring \<Rightarrow> bool" where
  "detectConclusion text = someIncluded text conclusionIndicators"

definition calculateAverageSentenceLength :: "jsstring list \<Rightarrow> rat" where
  "calculateAverageSentenceLength sentences =
     (if length sentences = 0 then 0
      else of_int (foldl (\<lambda>sum sentence. sum + int (length (trimString sentence))) 0 sentences)
           / of_nat (length sentences))"

definition assessCoherence :: "jsstring \<Rightarrow> rat" where
  "assessCoherence text = min (of_int (indicatorCount text coherenceIndicators) / 3) 1"

definition assessOrganization :: "jsstring \<Rightarrow> rat" where
  "assessOrganization text = min (of_int (indicatorCount text structureIndicators) / 2) 1"

definition detectThesis :: "jsstring \<Rightarrow> bool" where
  "detectThesis text = someIncluded text thesisIndicators"

definition assessThesisClarity :: "jsstring \<Rightarrow> rat" where
  "assessThesisClarity text = (if detectThesis text then 8 / 10 else 3 / 10)"

definition assessTopicRelevance :: "jsstring \<Rightarrow> rat" where
  "assessTopicRelevance text = 7 / 10"

definition assessDepth :: "jsstring \<Rightarrow> rat" where
  "assessDepth text = min (of_int (indicatorCount text depthIndicators) / 2) 1"

definition assessBreadth :: "jsstring \<Rightarrow> rat" where
  "assessBreadth text = min (of_int (indicatorCount text breadthIndicators) / 3) 1"

definition detectLogicalConnections :: "jsstring \<Rightarrow> int" where
  "detectLogicalConnections text = indicatorCount text connectionIndicators"

definition assessArgumentFlow :: "jsstring \<Rightarrow> rat" where
  "assessArgumentFlow text = min (of_int (detectLogicalConnections text) / 3) 1"

definition assessConsistency :: "jsstring \<Rightarrow> rat" where
  "assessConsistency text = 7 / 10"

definition detectFallacies :: "jsstring \<Rightarrow> int" where
  "detectFallacies text = indicatorCount text fallacyIndicators"

definition assessReasoningQuality :: "jsstring \<Rightarrow> rat" where
  "assessReasoningQuality text =
     (let connections = detectLogicalConnections text;
          fallacies = detectFallacies text
      in max 0 (min 1 (of_int (connections - fallacies) / 3)))"

text \<open>
  \<^verbatim>\<open>extractEvidenceIndicators\<close> returns \<^verbatim>\<open>{count, types, details}\<close>: \<open>details\<close> holds
  the types with a positive count, in key order, \<open>types\<close> their names and \<open>count\<close> the sum.
\<close>

record evidenceIndicators_t =
  indicators_count :: int
  indicators_types :: "jsstring list"
  indicators_details :: "(jsstring \<times> int) list"

definition extractEvidenceIndicators :: "jsstring \<Rightarrow> evidenceIndicators_t" where
  "extractEvidenceIndicators text =
     (let counts = filter (\<lambda>(type, count). count > 0)
                     (map (\<lambda>(type, indicators). (type, indicatorCount text indicators))
                        evidenceTypesTable)
      in \<lparr> indicators_count = foldl (\<lambda>sum count. sum + count) 0 (map snd counts),
           indicators_types = map fst counts,
           indicators_details = counts \<rparr>)"

definition assessEvidenceQuality :: "jsstring \<Rightarrow> rat" where
  "assessEvidenceQuality text =
     min (of_int (indicators_count (extractEvidenceIndicators text)) / 5) 1"

text \<open>
  The class defines \<^verbatim>\<open>assessSourceDependency\<close> twice. The first definition (lines
  563-576) counts source indicators; the second (lines 661-663) replaces it, as a later
  method of a class body does, and is the one every call reaches.
\<close>

definition assessSourceDependency_first :: "jsstring \<Rightarrow> rat" where
  "assessSourceDependency_first text =
     min (of_int (indicatorCount text sourceIndicators) / 5) 1"

definition assessEvidenceRelevance :: "jsstring \<Rightarrow> rat" where
  "assessEvidenceRelevance text = 7 / 10"

definition detectQuestioning :: "jsstring \<Rightarrow> int" where
  "detectQuestioning text = indicatorCount text questionIndicators"

definition detectAnalysis :: "jsstring \<Rightarrow> int" where
  "detectAnalysis text = indicatorCount text analysisIndicators"

definition detectEvaluation :: "jsstring \<Rightarrow> int" where
  "detectEvaluation text = indicatorCount text evaluationIndicators"

definition detectSynthesis :: "jsstring \<Rightarrow> int" where
  "detectSynthesis text = indicatorCount text synthesisIndicators"

definition detectMetacognition :: "jsstring \<Rightarrow> int" where
  "detectMetacognition text = indicatorCount text metacognitionIndicators"

definition calculateCriticalThinkingLevel :: "jsstring \<Rightarrow> rat" where
  "calculateCriticalThinkingLevel text =
     (let questioning = detectQuestioning text;
          analysis = detectAnalysis text;
          evaluation = detectEvaluation text;
          synthesis = detectSynthesis text;
          metacognition = detectMetacognition text;
          total = questioning + analysis + evaluation + synthesis + metacognition
      in min (of_int total / 5) 1)"

text \<open>
  The second definition: \<^verbatim>\<open>return this.assessSourceDependency(text);\<close>. A call that
  does not return has the value \<open>None\<close>.
\<close>

partial_function (option) assessSourceDependency :: "jsstring \<Rightarrow> rat option" where
  "assessSourceDependency text = assessSourceDependency text"

definition detectPersonalInsights :: "jsstring \<Rightarrow> int" where
  "detectPersonalInsights text = indicatorCount text personalIndicators"

definition detectCreativeElements :: "jsstring \<Rightarrow> int" where
  "detectCreativeElements text = indicatorCount text creativeIndicators"

definition calculateOriginalityScore :: "jsstring \<Rightarrow> rat option" where
  "calculateOriginalityScore text =
     do {
       sourceDependency \<leftarrow> assessSourceDependency text;
       let personalInsights = detectPersonalInsights text;
       let creativeElements = detectCreativeElements text;
       Some (max 0 (min 1 (of_int (personalInsights + creativeElements) / 5 - sourceDependency)))
     }"

subsection \<open>The analysis record\<close>

text \<open>
  \<^verbatim>\<open>performArgumentAnalysis\<close> builds six sub-records and then the summary
  \<^verbatim>\<open>overall\<close> from them. Two sub-records have a field \<^verbatim>\<open>sourceDependency\<close>, the
  critical thinking sub-record has a field \<^verbatim>\<open>analysis\<close>, and the summary repeats the
  names of the sub-records; these fields carry the name of their record as a prefix.
\<close>

record structure_t =
  hasIntroduction :: bool
  hasBody :: bool
  hasConclusion :: bool
  sentenceCount :: int
  averageSentenceLength :: rat
  coherence :: rat
  organization :: rat

record content_t =
  hasThesis :: bool
  thesisClarity :: rat
  topicRelevance :: rat
  depth :: rat
  breadth :: rat

record reasoning_t =
  logicalConnections :: int
  argumentFlow :: rat
  consistency :: rat
  fallacies :: int
  reasoningQuality :: rat

record evidence_t =
  evidenceCount :: int
  evidenceTypes :: "jsstring list"
  evidenceQuality :: rat
  evidence_sourceDependency :: rat
  evidenceRelevance :: rat

record criticalThinking_t =
  questioning :: int
  criticalThinking_analysis :: int
  evaluation :: int
  synthesis :: int
  metacognition :: int
  overallLevel :: rat

record originality_t =
  originality_sourceDependency :: rat
  personalInsights :: int
  creativeElements :: int
  originalityScore :: rat

record overall_t =
  overall_structure :: rat
  overall_content :: rat
  overall_reasoning :: rat
  overall_evidence :: rat
  overall_criticalThinking :: rat
  overall_originality :: rat
  total :: rat

text \<open>
  The six sub-records, and the analysis: the sub-records extended by \<^verbatim>\<open>overall\<close>.
  \<^verbatim>\<open>calculateOverallScores\<close> is called on the analysis while \<^verbatim>\<open>overall\<close> is still
  the empty object and reads the sub-records only.
\<close>

record dimensions_t =
  "structure" :: structure_t
  content :: content_t
  reasoning :: reasoning_t
  evidence :: evidence_t
  criticalThinking :: criticalThinking_t
  originality :: originality_t

record analysis_t = dimensions_t +
  overall :: overall_t

subsection \<open>The six analyses\<close>

definition analyzeStructure :: "jsstring \<Rightarrow> structure_t" where
  "analyzeStructure text =
     (let sentences = filter (\<lambda>s. length (trimString s) > 0) (splitSentences text)
      in \<lparr> hasIntroduction = detectIntroduction text,
           hasBody = detectBody text,
           hasConclusion = detectConclusion text,
           sentenceCount = int (length sentences),
           averageSentenceLength = calculateAverageSentenceLength sentences,
           coherence = assessCoherence text,
           organization = assessOrganization text \<rparr>)"

definition analyzeContent :: "jsstring \<Rightarrow> content_t" where
  "analyzeContent text =
     \<lparr> hasThesis = detectThesis text,
       thesisClarity = assessThesisClarity text,
       topicRelevance = assessTopicRelevance text,
       depth = assessDepth text,
       breadth = assessBreadth text \<rparr>"

definition analyzeReasoning :: "jsstring \<Rightarrow> reasoning_t" where
  "analyzeReasoning text =
     \<lparr> logicalConnections = detectLogicalConnections text,
       argumentFlow = assessArgumentFlow text,
       consistency = assessConsistency text,
       fallacies = detectFallacies text,
       reasoningQuality = assessReasoningQuality text \<rparr>"

text \<open>
  \<^verbatim>\<open>analyzeEvidence\<close> and \<^verbatim>\<open>analyzeOriginality\<close> call \<^verbatim>\<open>assessSourceDependency\<close>
  and return only if that call does.
\<close>

definition analyzeEvidence :: "jsstring \<Rightarrow> evidence_t option" where
  "analyzeEvidence text =
     do {
       let evidenceIndicators = extractEvidenceIndicators text;
       let quality = assessEvidenceQuality text;
       sourceDependency \<leftarrow> assessSourceDependency text;
       Some \<lparr> evidenceCount = indicators_count evidenceIndicators,
              evidenceTypes = indicators_types evidenceIndicators,
              evidenceQuality = quality,
              evidence_sourceDependency = sourceDependency,
              evidenceRelevance = assessEvidenceRelevance text \<rparr>
     }"

definition analyzeCriticalThinking :: "jsstring \<Rightarrow> criticalThinking_t" where
  "analyzeCriticalThinking text =
     \<lparr> questioning = detectQuestioning text,
       criticalThinking_analysis = detectAnalysis text,
       evaluation = detectEvaluation text,
       synthesis = detectSynthesis text,
       metacognition = detectMetacognition text,
       overallLevel = calculateCriticalThinkingLevel text \<rparr>"

definition analyzeOriginality :: "jsstring \<Rightarrow> originality_t option" where
  "analyzeOriginality text =
     do {
       sourceDependency \<leftarrow> assessSourceDependency text;
       let insights = detectPersonalInsights text;
       let creative = detectCreativeElements text;
       score \<leftarrow> calculateOriginalityScore text;
       Some \<lparr> originality_sourceDependency = sourceDependency,
              personalInsights = insights,
              creativeElements = creative,
              originalityScore = score \<rparr>
     }"

text \<open>
  \<^verbatim>\<open>calculateOverallScores\<close>. The field \<^verbatim>\<open>total\<close> is the constant 0 with the comment
  ``Will be calculated below''; nothing below, and nothing else in the class, assigns it.
\<close>

definition calculateOverallScores :: "'a dimensions_t_scheme \<Rightarrow> overall_t" where
  "calculateOverallScores analysis =
     \<lparr> overall_structure =
         (coherence (structure analysis) + organization (structure analysis)) / 2,
       overall_content =
         (thesisClarity (content analysis) + depth (content analysis)
            + breadth (content analysis)) / 3,
       overall_reasoning = reasoningQuality (reasoning analysis),
       overall_evidence =
         (evidenceQuality (evidence analysis) + evidenceRelevance (evidence analysis)) / 2,
       overall_criticalThinking = overallLevel (criticalThinking analysis),
       overall_originality = originalityScore (originality analysis),
       total = 0 \<rparr>"

definition performArgumentAnalysis :: "jsstring \<Rightarrow> analysis_t option" where
  "performArgumentAnalysis text =
     do {
       let st = analyzeStructure text;
       let co = analyzeContent text;
       let re = analyzeReasoning text;
       ev \<leftarrow> analyzeEvidence text;
       let ct = analyzeCriticalThinking text;
       orig \<leftarrow> analyzeOriginality text;
       let analysis = \<lparr> structure = st, content = co, reasoning = re, evidence = ev,
                        criticalThinking = ct, originality = orig \<rparr>;
       Some (dimensions_t.extend analysis \<lparr> overall = calculateOverallScores analysis \<rparr>)
     }"

subsection \<open>Weaknesses and strengths\<close>

record weakness_t =
  weakness_type :: jsstring
  weakness_area :: jsstring
  weakness_score :: rat
  weakness_priority :: jsstring

record strength_t =
  strength_area :: jsstring
  strength_message :: jsstring
  strength_score :: rat

text \<open>Each rule pushes its entry or nothing; the rules are independent of each other.\<close>

definition identifyWeaknesses :: "'a dimensions_t_scheme \<Rightarrow> weakness_t list" where
  "identifyWeaknesses analysis =
     (if thesisClarity (content analysis) < 6 / 10
      then [\<lparr> weakness_type = str ''thesis_weak'', weakness_area = str ''Tesis'',
               weakness_score = thesisClarity (content analysis),
               weakness_priority = str ''high'' \<rparr>]
      else [])
     @ (if evidenceCount (evidence analysis) < 2
        then [\<lparr> weakness_type = str ''evidence_lacking'', weakness_area = str ''Evidencia'',
                 weakness_score = of_int (evidenceCount (evidence analysis)) / 5,
                 weakness_priority = str ''medium'' \<rparr>]
        else [])
     @ (if originality_sourceDependency (originality analysis) > 7 / 10
        then [\<lparr> weakness_type = str ''source_dependency'', weakness_area = str ''Originalidad'',
                 weakness_score = 1 - originality_sourceDependency (originality analysis),
                 weakness_priority = str ''high'' \<rparr>]
        else [])
     @ (if reasoningQuality (reasoning analysis) < 6 / 10
        then [\<lparr> weakness_type = str ''reasoning_weak'', weakness_area = str ''Razonamiento'',
                 weakness_score = reasoningQuality (reasoning analysis),
                 weakness_priority = str ''medium'' \<rparr>]
        else [])
     @ (if overallLevel (criticalThinking analysis) < 5 / 10
        then [\<lparr> weakness_type = str ''critical_thinking_low'',
                 weakness_area = str ''Pensamiento Cr'' @ [237] @ str ''tico'',
                 weakness_score = overallLevel (criticalThinking analysis),
                 weakness_priority = str ''high'' \<rparr>]
        else [])"

definition identifyStrengths :: "'a dimensions_t_scheme \<Rightarrow> strength_t list" where
  "identifyStrengths analysis =
     (if thesisClarity (content analysis) > 8 / 10
      then [\<lparr> strength_area = str ''Tesis'',
               strength_message = str ''Tu tesis est'' @ [225] @ str '' bien definida y clara'',
               strength_score = thesisClarity (content analysis) \<rparr>]
      else [])
     @ (if evidenceCount (evidence analysis) \<ge> 3
        then [\<lparr> strength_area = str ''Evidencia'',
                 strength_message =
                   str ''Incluyes buena cantidad de evidencia para respaldar tu argumento'',
                 strength_score = of_int (evidenceCount (evidence analysis)) / 5 \<rparr>]
        else [])
     @ (if originalityScore (originality analysis) > 6 / 10
        then [\<lparr> strength_area = str ''Originalidad'',
                 strength_message =
                   str ''Tu an'' @ [225] @ str ''lisis muestra pensamiento original y personal'',
                 strength_score = originalityScore (originality analysis) \<rparr>]
        else [])
     @ (if reasoningQuality (reasoning analysis) > 8 / 10
        then [\<lparr> strength_area = str ''Razonamiento'',
                 strength_message =
                   str ''Tu razonamiento es l'' @ [243] @ str ''gico y bien estructurado'',
                 strength_score = reasoningQuality (reasoning analysis) \<rparr>]
        else [])"

subsection \<open>Feedback and micro-challenges\<close>

text \<open>
  The two template objects, as lists of their own properties in key order;
  \<^verbatim>\<open>templates[weakness.type]\<close> is the lookup \<open>map_of\<close>. The keys looked up are the
  \<^verbatim>\<open>type\<close> fields of weaknesses.
\<close>

record feedbackTemplate_t =
  message :: jsstring
  suggestion :: jsstring
  priority :: jsstring

definition initializeFeedbackTemplates :: "(jsstring \<times> feedbackTemplate_t) list" where
  "initializeFeedbackTemplates =
     [(str ''thesis_weak'',
       \<lparr> message = str ''Tu respuesta necesita una tesis m'' @ [225] @ str ''s clara. '' @ [191]
            @ str ''Cu'' @ [225] @ str ''l es tu posici'' @ [243]
            @ str ''n principal sobre el tema?'',
         suggestion = str ''Comienza con una declaraci'' @ [243] @ str ''n clara de tu posici''
            @ [243] @ str ''n'',
         priority = str ''high'' \<rparr>),
      (str ''evidence_lacking'',
       \<lparr> message = str ''Necesitas m'' @ [225] @ str ''s evidencia para respaldar tu argumento. ''
            @ [191] @ str ''Qu'' @ [233] @ str '' datos o ejemplos puedes usar?'',
         suggestion = str ''Incluye al menos 2-3 ejemplos espec'' @ [237]
            @ str ''ficos o datos relevantes'',
         priority = str ''medium'' \<rparr>),
      (str ''source_dependency'',
       \<lparr> message = str ''Tu respuesta depende mucho de fuentes externas. '' @ [191] @ str ''C''
            @ [243] @ str ''mo puedes desarrollar tu propio an'' @ [225] @ str ''lisis?'',
         suggestion = str ''Combina informaci'' @ [243]
            @ str ''n de fuentes con tu propio razonamiento'',
         priority = str ''high'' \<rparr>),
      (str ''reasoning_weak'',
       \<lparr> message = str
            ''Hay inconsistencias en tu razonamiento. Revisa las conexiones entre tus ideas.'',
         suggestion = str ''Usa conectores l'' @ [243]
            @ str ''gicos para unir tus argumentos de manera coherente'',
         priority = str ''medium'' \<rparr>),
      (str ''critical_thinking_low'',
       \<lparr> message = str ''Necesitas desarrollar m'' @ [225] @ str ''s pensamiento cr'' @ [237]
            @ str ''tico. '' @ [191] @ str ''Qu'' @ [233]
            @ str '' preguntas puedes hacer sobre el tema?'',
         suggestion = str ''Considera diferentes perspectivas y cuestiona las suposiciones'',
         priority = str ''high'' \<rparr>)]"

record feedbackItem_t =
  feedback_type :: jsstring
  feedback_message :: jsstring
  feedback_suggestion :: jsstring
  feedback_priority :: jsstring
  feedback_area :: jsstring
  feedback_score :: rat

definition generatePersonalizedFeedback :: "'a dimensions_t_scheme \<Rightarrow> feedbackItem_t list" where
  "generatePersonalizedFeedback analysis =
     concat (map (\<lambda>weakness.
          case map_of initializeFeedbackTemplates (weakness_type weakness) of
            Some template \<Rightarrow>
              [\<lparr> feedback_type = weakness_type weakness,
                 feedback_message = message template,
                 feedback_suggestion = suggestion template,
                 feedback_priority = priority template,
                 feedback_area = weakness_area weakness,
                 feedback_score = weakness_score weakness \<rparr>]
          | None \<Rightarrow> [])
        (identifyWeaknesses analysis))
     @ map (\<lambda>strength.
          \<lparr> feedback_type = str ''strength'',
            feedback_message = str ''Excelente trabajo en '' @ strength_area strength
              @ str ''. '' @ strength_message strength,
            feedback_suggestion = str ''Contin'' @ [250] @ str ''a desarrollando esta fortaleza'',
            feedback_priority = str ''low'',
            feedback_area = strength_area strength,
            feedback_score = strength_score strength \<rparr>)
        (identifyStrengths analysis)"

record challengeTemplate_t =
  prompt :: jsstring
  skill :: jsstring
  hint :: jsstring
  criteria :: jsstring

definition challengeTemplates :: "(jsstring \<times> challengeTemplate_t) list" where
  "challengeTemplates =
     [(str ''thesis_weak'',
       \<lparr> prompt = str ''Escribe una oraci'' @ [243] @ str ''n que exprese claramente tu posici''
            @ [243] @ str ''n principal sobre el tema'',
         skill = str ''thesis_formation'',
         hint = str ''Comienza con '' @ [39] @ str ''Mi posici'' @ [243] @ str ''n es que...''
            @ [39] @ str '' o '' @ [39] @ str ''Creo que...'' @ [39],
         criteria = str ''Debe ser una declaraci'' @ [243] @ str ''n clara y espec'' @ [237]
            @ str ''fica'' \<rparr>),
      (str ''evidence_lacking'',
       \<lparr> prompt = str ''Identifica 3 datos o ejemplos espec'' @ [237]
            @ str ''ficos que respalden tu argumento'',
         skill = str ''evidence_gathering'',
         hint = str ''Busca estad'' @ [237] @ str ''sticas, ejemplos concretos o casos espec''
            @ [237] @ str ''ficos'',
         criteria = str ''Deben ser relevantes y espec'' @ [237] @ str ''ficos al tema'' \<rparr>),
      (str ''reasoning_weak'',
       \<lparr> prompt = str ''Explica c'' @ [243]
            @ str ''mo una de tus ideas principales se conecta con otra'',
         skill = str ''logical_connection'',
         hint = str ''Usa palabras como '' @ [39] @ str ''por lo tanto'' @ [39] @ str '', ''
            @ [39] @ str ''en consecuencia'' @ [39] @ str '', '' @ [39] @ str ''esto demuestra''
            @ [39],
         criteria = str ''Debe mostrar una conexi'' @ [243] @ str ''n l'' @ [243]
            @ str ''gica clara'' \<rparr>),
      (str ''critical_thinking_low'',
       \<lparr> prompt = str ''Formula 2 preguntas cr'' @ [237]
            @ str ''ticas sobre el tema que no hayas considerado'',
         skill = str ''critical_questioning'',
         hint = str ''Pregunta sobre suposiciones, alternativas o implicaciones'',
         criteria = str ''Deben ser preguntas que requieran an'' @ [225]
            @ str ''lisis profundo'' \<rparr>)]"

record microChallenge_t =
  challenge_id :: jsstring
  challenge_type :: jsstring
  challenge_prompt :: jsstring
  challenge_skill :: jsstring
  challenge_hint :: jsstring
  challenge_criteria :: jsstring
  challenge_priority :: jsstring
  estimatedTime :: jsstring

text \<open>
  \<^verbatim>\<open>createMicroChallenge\<close> returns \<^verbatim>\<open>null\<close> (here \<open>None\<close>) for a type without a
  template. The identifier, built from the clock and a random number, is the parameter
  \<open>newId\<close>.
\<close>

definition createMicroChallenge :: "weakness_t \<Rightarrow> jsstring \<Rightarrow> microChallenge_t option" where
  "createMicroChallenge weakness newId =
     (case map_of challengeTemplates (weakness_type weakness) of
        Some template \<Rightarrow>
          Some \<lparr> challenge_id = newId,
                 challenge_type = weakness_type weakness,
                 challenge_prompt = prompt template,
                 challenge_skill = skill template,
                 challenge_hint = hint template,
                 challenge_criteria = criteria template,
                 challenge_priority = weakness_priority weakness,
                 estimatedTime = str ''5-10 minutos'' \<rparr>
      | None \<Rightarrow> None)"

text \<open>The identifier of the challenge for the \<open>i\<close>-th weakness is \<open>ids i\<close>.\<close>

definition generateMicroChallenges ::
    "'a dimensions_t_scheme \<Rightarrow> (nat \<Rightarrow> jsstring) \<Rightarrow> microChallenge_t list" where
  "generateMicroChallenges analysis ids =
     concat (map (\<lambda>(i, weakness).
          case createMicroChallenge weakness (ids i) of
            Some challenge \<Rightarrow> [challenge]
          | None \<Rightarrow> [])
        (enumerate 0 (identifyWeaknesses analysis)))"

subsection \<open>Progress over a session\<close>

record historyEntry_t =
  timestamp :: int
  analysis :: analysis_t
  feedback :: "feedbackItem_t list"

text \<open>\<^verbatim>\<open>analysisHistory\<close> maps a session identifier to the list of its entries.\<close>

type_synonym analysisHistory_t = "jsstring \<rightharpoonup> historyEntry_t list"

definition storeAnalysis ::
    "analysisHistory_t \<Rightarrow> jsstring \<Rightarrow> analysis_t \<Rightarrow> feedbackItem_t list \<Rightarrow> int
       \<Rightarrow> analysisHistory_t" where
  "storeAnalysis analysisHistory sessionId a fb now =
     (let entries = (case analysisHistory sessionId of None \<Rightarrow> [] | Some es \<Rightarrow> es)
      in analysisHistory(sessionId \<mapsto>
           entries @ [\<lparr> timestamp = now, analysis = a, feedback = fb \<rparr>]))"

text \<open>
  \<^verbatim>\<open>Array.prototype.slice(start, end)\<close>: a negative index counts from the end, and both
  indices are clamped to the array.
\<close>

definition slice :: "'a list \<Rightarrow> int \<Rightarrow> int \<Rightarrow> 'a list" where
  "slice xs start end =
     (let len = int (length xs);
          k = (if start < 0 then max (len + start) 0 else min start len);
          final = (if end < 0 then max (len + end) 0 else min end len)
      in take (nat (final - k)) (drop (nat k) xs))"

definition calculateAverageScore :: "historyEntry_t list \<Rightarrow> rat" where
  "calculateAverageScore analyses =
     (if length analyses = 0 then 0
      else foldl (\<lambda>sum entry. sum + total (overall (analysis entry))) 0 analyses
           / of_nat (length analyses))"

record progress_t =
  trend :: jsstring
  improvement :: rat
  currentScore :: "rat option"
  previousScore :: "rat option"

definition calculateProgress :: "analysisHistory_t \<Rightarrow> jsstring \<Rightarrow> progress_t" where
  "calculateProgress analysisHistory sessionId =
     (case analysisHistory sessionId of
        None \<Rightarrow> \<lparr> trend = str ''insufficient_data'', improvement = 0,
                   currentScore = None, previousScore = None \<rparr>
      | Some history \<Rightarrow>
          if length history < 2
          then \<lparr> trend = str ''insufficient_data'', improvement = 0,
                 currentScore = None, previousScore = None \<rparr>
          else
            let recent = slice history (- 3) (int (length history));
                older = slice history (- 6) (- 3)
            in if length older = 0
               then \<lparr> trend = str ''insufficient_data'', improvement = 0,
                      currentScore = None, previousScore = None \<rparr>
               else
                 let recentAvg = calculateAverageScore recent;
                     olderAvg = calculateAverageScore older;
                     delta = recentAvg - olderAvg
                 in \<lparr> trend = (if delta > 1 / 10 then str ''improving''
                                else if delta < - (1 / 10) then str ''declining''
                                else str ''stable''),
                      improvement = delta,
                      currentScore = Some recentAvg,
                      previousScore = Some olderAvg \<rparr>)"

section \<open>The message router and the learning style detector (mcp.js)\<close>

subsection \<open>Learning style detection\<close>

definition visualIndicators :: "jsstring list" where
  "visualIndicators =
     [str ''veo'', str ''visualizar'', str ''imagen'', str ''diagrama'',
      str ''gr'' @ [225] @ str ''fico'', str ''color'', str ''forma'', str ''dibujo'',
      str ''esquema'', str ''mapa'', str ''foto'', str ''ilustraci'' @ [243] @ str ''n'',
      str ''ver'', str ''mirar'']"

definition auditoryIndicators :: "jsstring list" where
  "auditoryIndicators =
     [str ''escucho'', str ''sonido'', str ''m'' @ [250] @ str ''sica'', str ''hablar'',
      str ''discutir'', str ''debate'', str ''conversaci'' @ [243] @ str ''n'', str ''audio'',
      str ''podcast'', str ''explicar'', str ''contar'', str ''narrar'',
      str ''o'' @ [237] @ str ''r'', str ''escuchar'']"

definition readingIndicators :: "jsstring list" where
  "readingIndicators =
     [str ''leer'', str ''escribir'', str ''texto'', str ''libro'',
      str ''art'' @ [237] @ str ''culo'', str ''ensayo'', str ''notas'', str ''resumen'',
      str ''lista'', str ''palabras'', str ''vocabulario'', str ''definir'',
      str ''explicar por escrito'']"

definition kinestheticIndicators :: "jsstring list" where
  "kinestheticIndicators =
     [str ''hacer'', str ''experimentar'', str ''pr'' @ [225] @ str ''ctica'', str ''manos'',
      str ''tocar'', str ''construir'', str ''crear'', str ''movimiento'', str ''actividad'',
      str ''proyecto'', str ''manipular'', str ''jugar'', str ''actuar'']"

definition countIndicators :: "jsstring \<Rightarrow> jsstring list \<Rightarrow> int" where
  "countIndicators text indicators =
     foldl (\<lambda>count indicator. count + (int (length (splitString text indicator)) - 1))
       0 indicators"

text \<open>
  \<^verbatim>\<open>Array.prototype.reduce\<close> without an initial value starts from the first element and
  throws on the empty array (\<open>None\<close>). \<^verbatim>\<open>Math.max\<close> of no argument is minus infinity
  (\<open>None\<close>).
\<close>

fun reduce :: "('a \<Rightarrow> 'a \<Rightarrow> 'a) \<Rightarrow> 'a list \<Rightarrow> 'a option" where
  "reduce f [] = None"
| "reduce f (x # xs) = Some (foldl f x xs)"

fun mathMax :: "int list \<Rightarrow> int option" where
  "mathMax [] = None"
| "mathMax (x # xs) = Some (foldl max x xs)"

text \<open>
  The object \<^verbatim>\<open>scores\<close> with its keys in the order the literal gives them, which is
  the order of \<^verbatim>\<open>Object.keys\<close> and \<^verbatim>\<open>Object.values\<close>.
\<close>

definition styleScores :: "jsstring \<Rightarrow> (jsstring \<times> int) list" where
  "styleScores text =
     [(str ''visual'', countIndicators text visualIndicators),
      (str ''auditory'', countIndicators text auditoryIndicators),
      (str ''reading'', countIndicators text readingIndicators),
      (str ''kinesthetic'', countIndicators text kinestheticIndicators)]"

text \<open>\<^verbatim>\<open>scores[a] > scores[b]\<close>; a comparison with a missing property is false.\<close>

definition scoreGreater :: "(jsstring \<times> int) list \<Rightarrow> jsstring \<Rightarrow> jsstring \<Rightarrow> bool" where
  "scoreGreater scores a b =
     (case (map_of scores a, map_of scores b) of
        (Some x, Some y) \<Rightarrow> x > y
      | _ \<Rightarrow> False)"

text \<open>
  The second definition of \<^verbatim>\<open>detectLearningStyle\<close> in the class (lines 524-631), which
  replaces the placeholder of line 495. The result is the name of a style or \<^verbatim>\<open>null\<close>
  (\<open>None\<close>); an exception inside the \<^verbatim>\<open>try\<close> block gives \<^verbatim>\<open>null\<close> as well.
\<close>

definition detectLearningStyle :: "jsstring \<Rightarrow> jsstring option" where
  "detectLearningStyle msg =
     (let text = toLowerCase msg;
          scores = styleScores text
      in case reduce (\<lambda>a b. if scoreGreater scores a b then a else b) (map fst scores) of
           None \<Rightarrow> None
         | Some dominantStyle \<Rightarrow>
             (case mathMax (map snd scores) of
                None \<Rightarrow> None
              | Some maxScore \<Rightarrow> if maxScore \<ge> 2 then Some dominantStyle else None))"

subsection \<open>Message processing\<close>

text \<open>
  The router keeps the registered agents and the session contexts. The four role
  handlers reach a database and a logger; they are parameters here: a handler takes the
  payload and the state \<open>'w\<close> of everything outside the router, and returns that state
  with either the message of the error it threw (\<open>Inl\<close>) or its response (\<open>Inr\<close>);
  what the class and the language throw are \<^verbatim>\<open>Error\<close> objects, which have a
  message. The clock
  reading \<^verbatim>\<open>Date.now()\<close> is the parameter \<open>now\<close>. The message queue, which only
  \<^verbatim>\<open>sendMessage\<close> appends to, is left out.
\<close>

record 'cfg agent_t =
  agent_id :: jsstring
  agent_config :: 'cfg
  agent_status :: jsstring
  lastActivity :: int

record ('cfg, 'x) mcp_t =
  contexts :: "jsstring \<rightharpoonup> 'x"
  agents :: "jsstring \<rightharpoonup> 'cfg agent_t"

record ('m, 'r) message_t =
  msg_id :: jsstring
  msg_from :: jsstring
  msg_to :: jsstring
  msg_sessionId :: jsstring
  msg_content :: 'm
  msg_timestamp :: int
  msg_status :: jsstring
  msg_response :: "'r option"
  msg_error :: "jsstring option"

record metadata_t =
  metadata_from :: jsstring
  metadata_sessionId :: jsstring
  metadata_timestamp :: int

record ('m, 'x) payload_t =
  payload_message :: 'm
  payload_context :: "'x option"
  payload_metadata :: metadata_t

record 'r result_t =
  success :: bool
  messageId :: jsstring
  result_response :: "'r option"
  result_error :: "jsstring option"

type_synonym ('m, 'x, 'r, 'w) handler = "('m, 'x) payload_t \<Rightarrow> 'w \<Rightarrow> (jsstring + 'r) \<times> 'w"

record ('m, 'x, 'r, 'w) handlers_t =
  handleStudentAgent :: "('m, 'x, 'r, 'w) handler"
  handleTeacherAgent :: "('m, 'x, 'r, 'w) handler"
  handleA2AAgent :: "('m, 'x, 'r, 'w) handler"
  handleAnalysisAgent :: "('m, 'x, 'r, 'w) handler"

definition registerAgent ::
    "('cfg, 'x) mcp_t \<Rightarrow> jsstring \<Rightarrow> 'cfg \<Rightarrow> int \<Rightarrow> ('cfg, 'x) mcp_t" where
  "registerAgent mcp agentId agentConfig now =
     mcp\<lparr> agents := (agents mcp)(agentId \<mapsto>
       \<lparr> agent_id = agentId, agent_config = agentConfig, agent_status = str ''active'',
         lastActivity = now \<rparr>) \<rparr>"

definition executeAgentAction ::
    "('m, 'x, 'r, 'w) handlers_t \<Rightarrow> ('cfg, 'x) mcp_t \<Rightarrow> jsstring \<Rightarrow> ('m, 'x) payload_t
       \<Rightarrow> int \<Rightarrow> 'w \<Rightarrow> (jsstring + 'r) \<times> ('cfg, 'x) mcp_t \<times> 'w" where
  "executeAgentAction hs mcp agentId payload now w =
     (case agents mcp agentId of
        None \<Rightarrow> (Inl (str ''Agent '' @ agentId @ str '' not found''), mcp, w)
      | Some agent \<Rightarrow>
          let mcp' = mcp\<lparr> agents := (agents mcp)(agentId \<mapsto> agent\<lparr> lastActivity := now \<rparr>) \<rparr>
          in if agentId = str ''student-agent''
             then (let (r, w') = handleStudentAgent hs payload w in (r, mcp', w'))
             else if agentId = str ''teacher-agent''
             then (let (r, w') = handleTeacherAgent hs payload w in (r, mcp', w'))
             else if agentId = str ''a2a-agent''
             then (let (r, w') = handleA2AAgent hs payload w in (r, mcp', w'))
             else if agentId = str ''analysis-agent''
             then (let (r, w') = handleAnalysisAgent hs payload w in (r, mcp', w'))
             else (Inl (str ''Unknown agent type: '' @ agentId), mcp', w))"

text \<open>
  \<^verbatim>\<open>processMessage\<close>: the body of the \<^verbatim>\<open>try\<close> block up to the first throw, then
  the \<^verbatim>\<open>catch\<close> block. It returns the result, the message object as it leaves it, the
  router and the outside state.
\<close>

definition processMessage ::
    "('m, 'x, 'r, 'w) handlers_t \<Rightarrow> ('cfg, 'x) mcp_t \<Rightarrow> ('m, 'r) message_t \<Rightarrow> int \<Rightarrow> 'w
       \<Rightarrow> 'r result_t \<times> ('m, 'r) message_t \<times> ('cfg, 'x) mcp_t \<times> 'w" where
  "processMessage hs mcp messageObj now w =
     (case agents mcp (msg_to messageObj) of
        None \<Rightarrow>
          (let e = str ''Agent '' @ msg_to messageObj @ str '' not found''
           in (\<lparr> success = False, messageId = msg_id messageObj,
                  result_response = None, result_error = Some e \<rparr>,
               messageObj\<lparr> msg_status := str ''failed'', msg_error := Some e \<rparr>,
               mcp, w))
      | Some targetAgent \<Rightarrow>
          let processing = messageObj\<lparr> msg_status := str ''processing'' \<rparr>;
              payload = \<lparr> payload_message = msg_content processing,
                          payload_context = contexts mcp (msg_sessionId processing),
                          payload_metadata =
                            \<lparr> metadata_from = msg_from processing,
                              metadata_sessionId = msg_sessionId processing,
                              metadata_timestamp = msg_timestamp processing \<rparr> \<rparr>;
              (r, mcp', w') = executeAgentAction hs mcp (msg_to processing) payload now w
          in (case r of
               Inr response \<Rightarrow>
                 (\<lparr> success = True, messageId = msg_id processing,
                    result_response = Some response, result_error = None \<rparr>,
                  processing\<lparr> msg_status := str ''completed'', msg_response := Some response \<rparr>,
                  mcp', w')
             | Inl e \<Rightarrow>
                 (\<lparr> success = False, messageId = msg_id processing,
                    result_response = None, result_error = Some e \<rparr>,
                  processing\<lparr> msg_status := str ''failed'', msg_error := Some e \<rparr>,
                  mcp', w')))"

section \<open>Notions used in the properties\<close>

text \<open>A score lies in the unit interval.\<close>

definition inUnit :: "rat \<Rightarrow> bool" where
  "inUnit x = (0 \<le> x \<and> x \<le> 1)"

text \<open>
  \<open>noFewer indicators text text'\<close>: no phrase of the list occurs less often in \<open>text'\<close>
  than in \<open>text\<close>, counted as the agent counts.
\<close>

definition noFewer :: "jsstring list \<Rightarrow> jsstring \<Rightarrow> jsstring \<Rightarrow> bool" where
  "noFewer indicators text text' =
     (\<forall>p \<in> set indicators. occurrences text p \<le> occurrences text' p)"

text \<open>
  A sample text with four source phrases, four personal phrases and four creative phrases,
  and the six sub-records the formulas of the class give for it when the value of
  \<^verbatim>\<open>assessSourceDependency\<close> is the one its first definition computes.
\<close>

definition sampleText :: jsstring where
  "sampleText =
     str ''fuente fuente fuente fuente creo que creo que creo que creo que crear crear crear crear''"

definition sampleAnalysis :: dimensions_t where
  "sampleAnalysis =
     \<lparr> structure = \<lparr> hasIntroduction = False, hasBody = False, hasConclusion = False,
                     sentenceCount = 1, averageSentenceLength = 87, coherence = 0,
                     organization = 0 \<rparr>,
       content = \<lparr> hasThesis = True, thesisClarity = 4 / 5, topicRelevance = 7 / 10,
                   depth = 0, breadth = 0 \<rparr>,
       reasoning = \<lparr> logicalConnections = 0, argumentFlow = 0, consistency = 7 / 10,
                     fallacies = 0, reasoningQuality = 0 \<rparr>,
       evidence = \<lparr> evidenceCount = 4, evidenceTypes = [str ''references''],
                    evidenceQuality = 4 / 5, evidence_sourceDependency = 4 / 5,
                    evidenceRelevance = 7 / 10 \<rparr>,
       criticalThinking = \<lparr> questioning = 0, criticalThinking_analysis = 0, evaluation = 0,
                            synthesis = 0, metacognition = 0, overallLevel = 0 \<rparr>,
       originality = \<lparr> originality_sourceDependency = 4 / 5, personalInsights = 4,
                       creativeElements = 4, originalityScore = 4 / 5 \<rparr> \<rparr>"

text \<open>A message with three visual keywords and three auditory keywords.\<close>

definition tieMessage :: jsstring where
  "tieMessage = str ''veo veo veo audio audio audio''"

text \<open>
  A router with five registered agents, one of them without a role handler, handlers that
  all throw and count their invocations in the outside state, and a pending message to a
  given target.
\<close>

definition sampleHandlers :: "(jsstring, nat, jsstring, nat) handlers_t" where
  "sampleHandlers =
     \<lparr> handleStudentAgent = (\<lambda>payload w. (Inl (str ''student handler failed''), Suc w)),
       handleTeacherAgent = (\<lambda>payload w. (Inl (str ''teacher handler failed''), Suc w)),
       handleA2AAgent = (\<lambda>payload w. (Inl (str ''a2a handler failed''), Suc w)),
       handleAnalysisAgent = (\<lambda>payload w. (Inl (str ''analysis handler failed''), Suc w)) \<rparr>"

definition sampleRouter :: "(unit, nat) mcp_t" where
  "sampleRouter =
     foldl (\<lambda>mcp agentId. registerAgent mcp agentId () 1)
       \<lparr> contexts = Map.empty, agents = Map.empty \<rparr>
       [str ''student-agent'', str ''teacher-agent'', str ''a2a-agent'', str ''analysis-agent'',
        str ''other-agent'']"

definition sampleMessage :: "jsstring \<Rightarrow> (jsstring, jsstring) message_t" where
  "sampleMessage target =
     \<lparr> msg_id = str ''msg_1'', msg_from = str ''user'', msg_to = target,
       msg_sessionId = str ''s1'', msg_content = str ''hola'', msg_timestamp = 3,
       msg_status = str ''pending'', msg_response = None, msg_error = None \<rparr>"

section \<open>Properties\<close>

subsection \<open>Counting lemmas\<close>

lemmas eval_defs = str_def toLowerCase_def toLowerCaseUnit_def splitString_def
  occurrences_def indicatorCount_def

lemmas list_defs = coherenceIndicators_def structureIndicators_def depthIndicators_def
  breadthIndicators_def connectionIndicators_def fallacyIndicators_def evidenceTypesTable_def
  sourceIndicators_def questionIndicators_def analysisIndicators_def evaluationIndicators_def
  synthesisIndicators_def metacognitionIndicators_def personalIndicators_def
  creativeIndicators_def introIndicators_def conclusionIndicators_def thesisIndicators_def

lemmas analyze_defs = analyzeStructure_def analyzeContent_def analyzeReasoning_def
  analyzeCriticalThinking_def detectIntroduction_def detectBody_def detectConclusion_def
  calculateAverageSentenceLength_def assessCoherence_def assessOrganization_def detectThesis_def
  assessThesisClarity_def assessTopicRelevance_def assessDepth_def assessBreadth_def
  detectLogicalConnections_def assessArgumentFlow_def assessConsistency_def detectFallacies_def
  assessReasoningQuality_def extractEvidenceIndicators_def assessEvidenceQuality_def
  assessSourceDependency_first_def assessEvidenceRelevance_def detectQuestioning_def
  detectAnalysis_def detectEvaluation_def detectSynthesis_def detectMetacognition_def
  calculateCriticalThinkingLevel_def detectPersonalInsights_def detectCreativeElements_def
  someIncluded_def splitSentences_def trimString_def isWhiteSpace_def isSentenceEnd_def

lemma splitFrom_nonempty: "splitFrom sep acc s \<noteq> []"
  by (induction sep acc s rule: splitFrom.induct) auto

lemma occurrences_nonneg: "indicator \<noteq> [] \<Longrightarrow> 0 \<le> occurrences text indicator"
  using splitFrom_nonempty [of indicator "[]" "toLowerCase text"]
  by (cases "splitFrom indicator [] (toLowerCase text)")
     (auto simp: occurrences_def splitString_def)

lemma foldl_add_sum_list:
  "foldl (\<lambda>sum x. sum + f x) a xs = (a::int) + sum_list (map f xs)"
  by (induction xs arbitrary: a) auto

lemma foldl_add_ints: "foldl (\<lambda>sum count. sum + count) a xs = (a::int) + sum_list xs"
  by (induction xs arbitrary: a) auto

lemma indicatorCount_sum_list:
  "indicatorCount text indicators = sum_list (map (occurrences text) indicators)"
  by (simp add: indicatorCount_def foldl_add_sum_list)

lemma indicatorCount_nonneg:
  "[] \<notin> set indicators \<Longrightarrow> 0 \<le> indicatorCount text indicators"
  unfolding indicatorCount_sum_list
  by (rule sum_list_nonneg) (auto intro: occurrences_nonneg)

lemma indicator_lists_nonempty:
  "[] \<notin> set coherenceIndicators" "[] \<notin> set structureIndicators"
  "[] \<notin> set depthIndicators" "[] \<notin> set breadthIndicators"
  "[] \<notin> set connectionIndicators" "[] \<notin> set fallacyIndicators"
  "[] \<notin> set sourceIndicators" "[] \<notin> set questionIndicators"
  "[] \<notin> set analysisIndicators" "[] \<notin> set evaluationIndicators"
  "[] \<notin> set synthesisIndicators" "[] \<notin> set metacognitionIndicators"
  "[] \<notin> set personalIndicators" "[] \<notin> set creativeIndicators"
  by (simp_all add: str_def list_defs)

lemma evidence_lists_nonempty:
  "(type, indicators) \<in> set evidenceTypesTable \<Longrightarrow> [] \<notin> set indicators"
  by (auto simp: evidenceTypesTable_def str_def)

lemma evidence_indicatorCount_nonneg:
  "(type, indicators) \<in> set evidenceTypesTable \<Longrightarrow> 0 \<le> indicatorCount text indicators"
  by (rule indicatorCount_nonneg) (rule evidence_lists_nonempty)

lemma sum_list_filter_pos:
  "(\<forall>x \<in> set xs. 0 \<le> snd x) \<Longrightarrow>
   sum_list (map snd (filter (\<lambda>(type, count). count > 0) xs)) = sum_list (map snd xs)"
  for xs :: "('a \<times> int) list"
  by (induction xs) (auto simp: order.order_iff_strict)

text \<open>
  The evidence count adds the counts of the types that have a positive one, which is the
  sum over all four types.
\<close>

lemma evidence_count_sum:
  "indicators_count (extractEvidenceIndicators text) =
     sum_list (map (\<lambda>x. indicatorCount text (snd x)) evidenceTypesTable)"
proof -
  let ?xs = "map (\<lambda>(type, indicators). (type, indicatorCount text indicators))
               evidenceTypesTable"
  have nonneg: "\<forall>x \<in> set ?xs. 0 \<le> snd x"
    by (auto intro: evidence_indicatorCount_nonneg)
  have "indicators_count (extractEvidenceIndicators text) =
          sum_list (map snd (filter (\<lambda>(type, count). count > 0) ?xs))"
    by (simp add: extractEvidenceIndicators_def Let_def foldl_add_ints)
  also have "\<dots> = sum_list (map snd ?xs)"
    by (rule sum_list_filter_pos [OF nonneg])
  also have "\<dots> = sum_list (map (\<lambda>x. indicatorCount text (snd x)) evidenceTypesTable)"
    by (simp add: case_prod_unfold comp_def)
  finally show ?thesis .
qed

lemma evidence_count_nonneg: "0 \<le> indicators_count (extractEvidenceIndicators text)"
  unfolding evidence_count_sum
  by (intro sum_list_nonneg) (auto intro: evidence_indicatorCount_nonneg)

lemma calculateAverageSentenceLength_nonneg: "0 \<le> calculateAverageSentenceLength sentences"
proof -
  have "0 \<le> (\<Sum>sentence\<leftarrow>sentences. int (length (trimString sentence)))"
    by (rule sum_list_nonneg) auto
  then show ?thesis
    by (simp add: calculateAverageSentenceLength_def foldl_add_sum_list zero_le_divide_iff)
qed

subsection \<open>Bounds of the normalised scores\<close>

lemma inUnit_min_div:
  "0 \<le> n \<Longrightarrow> 0 < k \<Longrightarrow> inUnit (min (of_int n / k) 1)"
  by (simp add: inUnit_def min_def)

lemma inUnit_clamp: "inUnit (max 0 (min 1 x))"
  by (simp add: inUnit_def)

lemma score_bounds:
  "inUnit (assessCoherence text)" "inUnit (assessOrganization text)"
  "inUnit (assessThesisClarity text)" "inUnit (assessTopicRelevance text)"
  "inUnit (assessDepth text)" "inUnit (assessBreadth text)"
  "inUnit (assessArgumentFlow text)" "inUnit (assessConsistency text)"
  "inUnit (assessReasoningQuality text)"
  "inUnit (assessEvidenceQuality text)" "inUnit (assessEvidenceRelevance text)"
  "inUnit (assessSourceDependency_first text)"
  unfolding assessCoherence_def assessOrganization_def assessDepth_def assessBreadth_def
    assessArgumentFlow_def detectLogicalConnections_def assessReasoningQuality_def Let_def
    assessEvidenceQuality_def assessSourceDependency_first_def
  by (simp_all add: inUnit_min_div inUnit_clamp indicatorCount_nonneg indicator_lists_nonempty
      evidence_count_nonneg)
     (simp_all add: inUnit_def assessThesisClarity_def assessTopicRelevance_def
      assessConsistency_def assessEvidenceRelevance_def)

lemma criticalThinking_bound: "inUnit (calculateCriticalThinkingLevel text)"
  unfolding calculateCriticalThinkingLevel_def Let_def detectQuestioning_def detectAnalysis_def
    detectEvaluation_def detectSynthesis_def detectMetacognition_def
  by (intro inUnit_min_div add_nonneg_nonneg indicatorCount_nonneg indicator_lists_nonempty)
     simp

subsection \<open>Monotonicity of the counts\<close>

lemma noFewer_indicatorCount:
  "noFewer indicators text text' \<Longrightarrow>
   indicatorCount text indicators \<le> indicatorCount text' indicators"
  unfolding indicatorCount_sum_list noFewer_def
  by (rule sum_list_mono) simp

lemma noFewer_append:
  "noFewer (xs @ ys) text text' \<longleftrightarrow> noFewer xs text text' \<and> noFewer ys text text'"
  by (auto simp: noFewer_def)

lemma min_div_mono:
  "m \<le> n \<Longrightarrow> 0 < k \<Longrightarrow> min (of_int m / k) 1 \<le> min (of_int n / k) (1::rat)"
  by (simp add: min_le_iff_disj divide_right_mono)

lemma clamp_mono: "x \<le> y \<Longrightarrow> max 0 (min 1 x) \<le> max 0 (min 1 (y::rat))"
  by (simp add: max.coboundedI2 min.coboundedI2)

lemma evidence_count_mono:
  assumes "noFewer (concat (map snd evidenceTypesTable)) text text'"
  shows "indicators_count (extractEvidenceIndicators text)
           \<le> indicators_count (extractEvidenceIndicators text')"
  unfolding evidence_count_sum
proof (rule sum_list_mono)
  fix x assume "x \<in> set evidenceTypesTable"
  with assms have "noFewer (snd x) text text'"
    by (auto simp: noFewer_def)
  then show "indicatorCount text (snd x) \<le> indicatorCount text' (snd x)"
    by (rule noFewer_indicatorCount)
qed

subsection \<open>The self-calling helper\<close>

lemma assessSourceDependency_no_value:
  "\<forall>text y. assessSourceDependency text = Some y \<longrightarrow> False"
  by (rule assessSourceDependency.fixp_induct
        [where P = "\<lambda>f. \<forall>text y. f text = Some y \<longrightarrow> False"])
     (rule option_admissible, simp_all)

text \<open>
  Claim C1. The helper \<^verbatim>\<open>assessSourceDependency\<close>, as the class finally defines it,
  does nothing but call itself, so no invocation returns: for every text its value is
  \<open>None\<close>, the value of a call that never returns.
\<close>

theorem C1_assessSourceDependency_never_returns:
  "assessSourceDependency text = None"
  using assessSourceDependency_no_value
  by (cases "assessSourceDependency text") auto

text \<open>
  Hence the two analyses that call the helper, and with them the whole analysis of a
  text, return for no text.
\<close>

lemma performArgumentAnalysis_never_returns:
  "analyzeEvidence text = None" "analyzeOriginality text = None"
  "calculateOriginalityScore text = None" "performArgumentAnalysis text = None"
proof -
  have none: "assessSourceDependency text = None"
    using assessSourceDependency_no_value by (cases "assessSourceDependency text") auto
  show "analyzeEvidence text = None"
    by (simp add: analyzeEvidence_def none)
  then show "performArgumentAnalysis text = None"
    by (simp add: performArgumentAnalysis_def)
  show "analyzeOriginality text = None"
    by (simp add: analyzeOriginality_def none)
  show "calculateOriginalityScore text = None"
    by (simp add: calculateOriginalityScore_def none)
qed

subsection \<open>The empty text\<close>

text \<open>
  Counterexample to claim C3 as stated: on the empty text the thesis clarity is 0.3 and
  the three placeholder scores are 0.7, not 0.
\<close>

theorem C3_empty_text_placeholders_not_zero:
  "thesisClarity (analyzeContent []) = 3 / 10
   \<and> topicRelevance (analyzeContent []) = 7 / 10
   \<and> consistency (analyzeReasoning []) = 7 / 10
   \<and> assessEvidenceRelevance [] = 7 / 10
   \<and> thesisClarity (analyzeContent []) \<noteq> 0"
  by (simp add: analyze_defs list_defs eval_defs)

text \<open>
  Claim C3, amended. On the empty text every sub-score computed from indicator counts is
  0 (and the flags are false, the lists empty); the thesis clarity is 0.3, the value of a
  text without a thesis phrase, and the constant scores topic relevance, consistency and
  evidence relevance are 0.7. The analyses of structure, content, reasoning and critical
  thinking and the evidence and originality counts return these values; the two source
  dependency fields and the originality score come from the self-calling helper of claim
  C1 and are not part of this statement.
\<close>

theorem C3_empty_text_scores:
  "analyzeStructure [] =
     \<lparr> hasIntroduction = False, hasBody = False, hasConclusion = False, sentenceCount = 0,
       averageSentenceLength = 0, coherence = 0, organization = 0 \<rparr>
   \<and> analyzeContent [] =
     \<lparr> hasThesis = False, thesisClarity = 3 / 10, topicRelevance = 7 / 10, depth = 0,
       breadth = 0 \<rparr>
   \<and> analyzeReasoning [] =
     \<lparr> logicalConnections = 0, argumentFlow = 0, consistency = 7 / 10, fallacies = 0,
       reasoningQuality = 0 \<rparr>
   \<and> extractEvidenceIndicators [] =
     \<lparr> indicators_count = 0, indicators_types = [], indicators_details = [] \<rparr>
   \<and> assessEvidenceQuality [] = 0
   \<and> assessEvidenceRelevance [] = 7 / 10
   \<and> analyzeCriticalThinking [] =
     \<lparr> questioning = 0, criticalThinking_analysis = 0, evaluation = 0, synthesis = 0,
       metacognition = 0, overallLevel = 0 \<rparr>
   \<and> detectPersonalInsights [] = 0
   \<and> detectCreativeElements [] = 0"
  by (simp add: analyze_defs list_defs eval_defs)

subsection \<open>Scores in the unit interval\<close>

text \<open>
  Counterexample to claim C5 as stated: the fields \<^verbatim>\<open>logicalConnections\<close> and
  \<^verbatim>\<open>evidenceCount\<close> are plain counts; two occurrences give the value 2.
\<close>

theorem C5_raw_counts_exceed_one:
  "logicalConnections (analyzeReasoning (str ''por lo tanto por lo tanto'')) = 2
   \<and> indicators_count (extractEvidenceIndicators (str ''dato dato'')) = 2
   \<and> \<not> inUnit (of_int (logicalConnections
                 (analyzeReasoning (str ''por lo tanto por lo tanto''))))"
  by (simp add: analyzeReasoning_def detectLogicalConnections_def extractEvidenceIndicators_def
      inUnit_def list_defs eval_defs)

text \<open>
  Claim C5, amended. For every text the normalised sub-scores (coherence, organization,
  thesis clarity, topic relevance, depth, breadth, argument flow, consistency, reasoning
  quality, evidence quality, evidence relevance, overall critical thinking level) lie in
  the unit interval, and the counts and the average sentence length are not negative (they
  are not bounded by 1). \<^verbatim>\<open>calculateOverallScores\<close> maps sub-scores in the unit interval
  to summary values in the unit interval. The source dependency and the originality score
  of a text come from the self-calling helper of claim C1 and are not part of this
  statement.
\<close>

theorem C5_normalised_scores_in_unit_interval:
  "inUnit (coherence (analyzeStructure text))
   \<and> inUnit (organization (analyzeStructure text))
   \<and> inUnit (thesisClarity (analyzeContent text))
   \<and> inUnit (topicRelevance (analyzeContent text))
   \<and> inUnit (depth (analyzeContent text))
   \<and> inUnit (breadth (analyzeContent text))
   \<and> inUnit (argumentFlow (analyzeReasoning text))
   \<and> inUnit (consistency (analyzeReasoning text))
   \<and> inUnit (reasoningQuality (analyzeReasoning text))
   \<and> inUnit (assessEvidenceQuality text)
   \<and> inUnit (assessEvidenceRelevance text)
   \<and> inUnit (overallLevel (analyzeCriticalThinking text))
   \<and> 0 \<le> sentenceCount (analyzeStructure text)
   \<and> 0 \<le> averageSentenceLength (analyzeStructure text)
   \<and> 0 \<le> logicalConnections (analyzeReasoning text)
   \<and> 0 \<le> fallacies (analyzeReasoning text)
   \<and> 0 \<le> indicators_count (extractEvidenceIndicators text)
   \<and> 0 \<le> questioning (analyzeCriticalThinking text)
   \<and> 0 \<le> criticalThinking_analysis (analyzeCriticalThinking text)
   \<and> 0 \<le> evaluation (analyzeCriticalThinking text)
   \<and> 0 \<le> synthesis (analyzeCriticalThinking text)
   \<and> 0 \<le> metacognition (analyzeCriticalThinking text)
   \<and> 0 \<le> detectPersonalInsights text
   \<and> 0 \<le> detectCreativeElements text
   \<and> (inUnit (coherence (structure a)) \<and> inUnit (organization (structure a))
        \<and> inUnit (thesisClarity (content a)) \<and> inUnit (depth (content a))
        \<and> inUnit (breadth (content a)) \<and> inUnit (reasoningQuality (reasoning a))
        \<and> inUnit (evidenceQuality (evidence a)) \<and> inUnit (evidenceRelevance (evidence a))
        \<and> inUnit (overallLevel (criticalThinking a))
        \<and> inUnit (originalityScore (originality a))
      \<longrightarrow>
        inUnit (overall_structure (calculateOverallScores a))
        \<and> inUnit (overall_content (calculateOverallScores a))
        \<and> inUnit (overall_reasoning (calculateOverallScores a))
        \<and> inUnit (overall_evidence (calculateOverallScores a))
        \<and> inUnit (overall_criticalThinking (calculateOverallScores a))
        \<and> inUnit (overall_originality (calculateOverallScores a))
        \<and> inUnit (total (calculateOverallScores a)))"
proof -
  have scores:
    "inUnit (coherence (analyzeStructure text))" "inUnit (organization (analyzeStructure text))"
    "inUnit (thesisClarity (analyzeContent text))" "inUnit (topicRelevance (analyzeContent text))"
    "inUnit (depth (analyzeContent text))" "inUnit (breadth (analyzeContent text))"
    "inUnit (argumentFlow (analyzeReasoning text))" "inUnit (consistency (analyzeReasoning text))"
    "inUnit (reasoningQuality (analyzeReasoning text))"
    "inUnit (overallLevel (analyzeCriticalThinking text))"
    by (simp_all add: analyzeStructure_def Let_def analyzeContent_def analyzeReasoning_def
        analyzeCriticalThinking_def score_bounds criticalThinking_bound)
  have sentences:
    "0 \<le> sentenceCount (analyzeStructure text)"
    "0 \<le> averageSentenceLength (analyzeStructure text)"
    by (simp_all add: analyzeStructure_def Let_def calculateAverageSentenceLength_nonneg)
  have counts:
    "0 \<le> logicalConnections (analyzeReasoning text)" "0 \<le> fallacies (analyzeReasoning text)"
    "0 \<le> questioning (analyzeCriticalThinking text)"
    "0 \<le> criticalThinking_analysis (analyzeCriticalThinking text)"
    "0 \<le> evaluation (analyzeCriticalThinking text)"
    "0 \<le> synthesis (analyzeCriticalThinking text)"
    "0 \<le> metacognition (analyzeCriticalThinking text)"
    "0 \<le> detectPersonalInsights text" "0 \<le> detectCreativeElements text"
    by (simp_all add: analyzeReasoning_def analyzeCriticalThinking_def
        detectLogicalConnections_def detectFallacies_def detectQuestioning_def detectAnalysis_def
        detectEvaluation_def detectSynthesis_def detectMetacognition_def
        detectPersonalInsights_def detectCreativeElements_def
        indicatorCount_nonneg indicator_lists_nonempty)
  have overall_bounds:
    "inUnit (overall_structure (calculateOverallScores a))
       \<and> inUnit (overall_content (calculateOverallScores a))
       \<and> inUnit (overall_reasoning (calculateOverallScores a))
       \<and> inUnit (overall_evidence (calculateOverallScores a))
       \<and> inUnit (overall_criticalThinking (calculateOverallScores a))
       \<and> inUnit (overall_originality (calculateOverallScores a))
       \<and> inUnit (total (calculateOverallScores a))"
    if "inUnit (coherence (structure a)) \<and> inUnit (organization (structure a))
        \<and> inUnit (thesisClarity (content a)) \<and> inUnit (depth (content a))
        \<and> inUnit (breadth (content a)) \<and> inUnit (reasoningQuality (reasoning a))
        \<and> inUnit (evidenceQuality (evidence a)) \<and> inUnit (evidenceRelevance (evidence a))
        \<and> inUnit (overallLevel (criticalThinking a))
        \<and> inUnit (originalityScore (originality a))"
    using that by (simp add: calculateOverallScores_def inUnit_def)
  from scores sentences counts overall_bounds score_bounds(10,11) evidence_count_nonneg
  show ?thesis by blast
qed

text \<open>
  The theorem at the text ``por lo tanto por lo tanto'' and the sample analysis, whose
  sub-scores lie in the unit interval.
\<close>

theorem C5_normalised_scores_witness:
  "inUnit (coherence (structure sampleAnalysis))
   \<and> inUnit (organization (structure sampleAnalysis))
   \<and> inUnit (thesisClarity (content sampleAnalysis))
   \<and> inUnit (depth (content sampleAnalysis))
   \<and> inUnit (breadth (content sampleAnalysis))
   \<and> inUnit (reasoningQuality (reasoning sampleAnalysis))
   \<and> inUnit (evidenceQuality (evidence sampleAnalysis))
   \<and> inUnit (evidenceRelevance (evidence sampleAnalysis))
   \<and> inUnit (overallLevel (criticalThinking sampleAnalysis))
   \<and> inUnit (originalityScore (originality sampleAnalysis))
   \<and> inUnit (overall_structure (calculateOverallScores sampleAnalysis))
   \<and> inUnit (overall_content (calculateOverallScores sampleAnalysis))
   \<and> inUnit (overall_reasoning (calculateOverallScores sampleAnalysis))
   \<and> inUnit (overall_evidence (calculateOverallScores sampleAnalysis))
   \<and> inUnit (overall_criticalThinking (calculateOverallScores sampleAnalysis))
   \<and> inUnit (overall_originality (calculateOverallScores sampleAnalysis))
   \<and> inUnit (total (calculateOverallScores sampleAnalysis))
   \<and> inUnit (argumentFlow (analyzeReasoning (str ''por lo tanto por lo tanto'')))
   \<and> inUnit (reasoningQuality (analyzeReasoning (str ''por lo tanto por lo tanto'')))
   \<and> 0 \<le> logicalConnections (analyzeReasoning (str ''por lo tanto por lo tanto''))"
proof -
  have h: "inUnit (coherence (structure sampleAnalysis))
     \<and> inUnit (organization (structure sampleAnalysis))
     \<and> inUnit (thesisClarity (content sampleAnalysis))
     \<and> inUnit (depth (content sampleAnalysis))
     \<and> inUnit (breadth (content sampleAnalysis))
     \<and> inUnit (reasoningQuality (reasoning sampleAnalysis))
     \<and> inUnit (evidenceQuality (evidence sampleAnalysis))
     \<and> inUnit (evidenceRelevance (evidence sampleAnalysis))
     \<and> inUnit (overallLevel (criticalThinking sampleAnalysis))
     \<and> inUnit (originalityScore (originality sampleAnalysis))"
    by (simp add: sampleAnalysis_def inUnit_def)
  from h C5_normalised_scores_in_unit_interval
           [of "str ''por lo tanto por lo tanto''" sampleAnalysis]
  show ?thesis by blast
qed

subsection \<open>More occurrences of an indicator phrase\<close>

text \<open>
  Counterexample to claim C10 as stated: ``nunca'' is an indicator phrase of the reasoning
  analysis (a fallacy indicator); the second text has one more occurrence of it and the
  same occurrences of the connection phrases, and its reasoning quality is lower.
\<close>

theorem C10_fallacy_phrase_lowers_reasoning_quality:
  "occurrences (str ''por lo tanto'') (str ''nunca'') = 0
   \<and> occurrences (str ''por lo tanto nunca'') (str ''nunca'') = 1
   \<and> map (occurrences (str ''por lo tanto nunca'')) connectionIndicators
       = map (occurrences (str ''por lo tanto'')) connectionIndicators
   \<and> assessReasoningQuality (str ''por lo tanto'') = 1 / 3
   \<and> assessReasoningQuality (str ''por lo tanto nunca'') = 0
   \<and> \<not> assessReasoningQuality (str ''por lo tanto'')
         \<le> assessReasoningQuality (str ''por lo tanto nunca'')"
  by (simp add: assessReasoningQuality_def detectLogicalConnections_def detectFallacies_def
      connectionIndicators_def fallacyIndicators_def eval_defs)

text \<open>
  Claim C10, amended. For the scores that count their indicator phrases positively
  (coherence, organization, depth, breadth, argument flow, evidence quality, critical
  thinking level), a text in which no phrase of the list occurs less often, so in
  particular a text with more occurrences of one phrase and all other counts unchanged,
  never has a lower score. The reasoning quality subtracts the count of the fallacy
  indicators from the count of the connection phrases: it is not lower when no connection
  phrase occurs less often and no fallacy indicator more often.
\<close>

theorem C10_positive_indicators_monotone:
  "(noFewer coherenceIndicators text text' \<longrightarrow> assessCoherence text \<le> assessCoherence text')
   \<and> (noFewer structureIndicators text text'
        \<longrightarrow> assessOrganization text \<le> assessOrganization text')
   \<and> (noFewer depthIndicators text text' \<longrightarrow> assessDepth text \<le> assessDepth text')
   \<and> (noFewer breadthIndicators text text' \<longrightarrow> assessBreadth text \<le> assessBreadth text')
   \<and> (noFewer connectionIndicators text text'
        \<longrightarrow> assessArgumentFlow text \<le> assessArgumentFlow text')
   \<and> (noFewer connectionIndicators text text' \<and> noFewer fallacyIndicators text' text
        \<longrightarrow> assessReasoningQuality text \<le> assessReasoningQuality text')
   \<and> (noFewer (concat (map snd evidenceTypesTable)) text text'
        \<longrightarrow> assessEvidenceQuality text \<le> assessEvidenceQuality text')
   \<and> (noFewer (questionIndicators @ analysisIndicators @ evaluationIndicators
                 @ synthesisIndicators @ metacognitionIndicators) text text'
        \<longrightarrow> calculateCriticalThinkingLevel text \<le> calculateCriticalThinkingLevel text')"
proof (intro conjI impI)
  assume "noFewer coherenceIndicators text text'"
  then show "assessCoherence text \<le> assessCoherence text'"
    unfolding assessCoherence_def by (intro min_div_mono noFewer_indicatorCount) simp_all
next
  assume "noFewer structureIndicators text text'"
  then show "assessOrganization text \<le> assessOrganization text'"
    unfolding assessOrganization_def by (intro min_div_mono noFewer_indicatorCount) simp_all
next
  assume "noFewer depthIndicators text text'"
  then show "assessDepth text \<le> assessDepth text'"
    unfolding assessDepth_def by (intro min_div_mono noFewer_indicatorCount) simp_all
next
  assume "noFewer breadthIndicators text text'"
  then show "assessBreadth text \<le> assessBreadth text'"
    unfolding assessBreadth_def by (intro min_div_mono noFewer_indicatorCount) simp_all
next
  assume "noFewer connectionIndicators text text'"
  then show "assessArgumentFlow text \<le> assessArgumentFlow text'"
    unfolding assessArgumentFlow_def detectLogicalConnections_def
    by (intro min_div_mono noFewer_indicatorCount) simp_all
next
  assume "noFewer connectionIndicators text text' \<and> noFewer fallacyIndicators text' text"
  then have "indicatorCount text connectionIndicators \<le> indicatorCount text' connectionIndicators"
    and "indicatorCount text' fallacyIndicators \<le> indicatorCount text fallacyIndicators"
    by (simp_all add: noFewer_indicatorCount)
  then have "indicatorCount text connectionIndicators - indicatorCount text fallacyIndicators
      \<le> indicatorCount text' connectionIndicators - indicatorCount text' fallacyIndicators"
    by linarith
  then show "assessReasoningQuality text \<le> assessReasoningQuality text'"
    unfolding assessReasoningQuality_def detectLogicalConnections_def detectFallacies_def Let_def
    by (intro clamp_mono divide_right_mono) simp_all
next
  assume "noFewer (concat (map snd evidenceTypesTable)) text text'"
  then show "assessEvidenceQuality text \<le> assessEvidenceQuality text'"
    unfolding assessEvidenceQuality_def by (intro min_div_mono evidence_count_mono) simp_all
next
  assume "noFewer (questionIndicators @ analysisIndicators @ evaluationIndicators
                 @ synthesisIndicators @ metacognitionIndicators) text text'"
  then have "indicatorCount text questionIndicators \<le> indicatorCount text' questionIndicators"
    "indicatorCount text analysisIndicators \<le> indicatorCount text' analysisIndicators"
    "indicatorCount text evaluationIndicators \<le> indicatorCount text' evaluationIndicators"
    "indicatorCount text synthesisIndicators \<le> indicatorCount text' synthesisIndicators"
    "indicatorCount text metacognitionIndicators \<le> indicatorCount text' metacognitionIndicators"
    by (simp_all add: noFewer_append noFewer_indicatorCount)
  then show "calculateCriticalThinkingLevel text \<le> calculateCriticalThinkingLevel text'"
    unfolding calculateCriticalThinkingLevel_def Let_def detectQuestioning_def detectAnalysis_def
      detectEvaluation_def detectSynthesis_def detectMetacognition_def
    by (intro min_div_mono) simp_all
qed

text \<open>
  The theorem at ``por lo tanto'' and ``por lo tanto por lo tanto'': one connection phrase
  occurs once more, every other count is unchanged.
\<close>

theorem C10_positive_indicators_witness:
  "noFewer coherenceIndicators (str ''por lo tanto'') (str ''por lo tanto por lo tanto'')
   \<and> noFewer structureIndicators (str ''por lo tanto'') (str ''por lo tanto por lo tanto'')
   \<and> noFewer depthIndicators (str ''por lo tanto'') (str ''por lo tanto por lo tanto'')
   \<and> noFewer breadthIndicators (str ''por lo tanto'') (str ''por lo tanto por lo tanto'')
   \<and> noFewer connectionIndicators (str ''por lo tanto'') (str ''por lo tanto por lo tanto'')
   \<and> noFewer fallacyIndicators (str ''por lo tanto por lo tanto'') (str ''por lo tanto'')
   \<and> noFewer (concat (map snd evidenceTypesTable))
         (str ''por lo tanto'') (str ''por lo tanto por lo tanto'')
   \<and> noFewer (questionIndicators @ analysisIndicators @ evaluationIndicators
                @ synthesisIndicators @ metacognitionIndicators)
         (str ''por lo tanto'') (str ''por lo tanto por lo tanto'')
   \<and> occurrences (str ''por lo tanto'') (str ''por lo tanto'')
       < occurrences (str ''por lo tanto por lo tanto'') (str ''por lo tanto'')
   \<and> assessCoherence (str ''por lo tanto'') \<le> assessCoherence (str ''por lo tanto por lo tanto'')
   \<and> assessOrganization (str ''por lo tanto'')
       \<le> assessOrganization (str ''por lo tanto por lo tanto'')
   \<and> assessDepth (str ''por lo tanto'') \<le> assessDepth (str ''por lo tanto por lo tanto'')
   \<and> assessBreadth (str ''por lo tanto'') \<le> assessBreadth (str ''por lo tanto por lo tanto'')
   \<and> assessArgumentFlow (str ''por lo tanto'')
       \<le> assessArgumentFlow (str ''por lo tanto por lo tanto'')
   \<and> assessReasoningQuality (str ''por lo tanto'')
       \<le> assessReasoningQuality (str ''por lo tanto por lo tanto'')
   \<and> assessEvidenceQuality (str ''por lo tanto'')
       \<le> assessEvidenceQuality (str ''por lo tanto por lo tanto'')
   \<and> calculateCriticalThinkingLevel (str ''por lo tanto'')
       \<le> calculateCriticalThinkingLevel (str ''por lo tanto por lo tanto'')"
proof -
  have h1: "noFewer coherenceIndicators (str ''por lo tanto'') (str ''por lo tanto por lo tanto'')"
    by (simp add: noFewer_def list_defs eval_defs)
  have h2: "noFewer structureIndicators (str ''por lo tanto'') (str ''por lo tanto por lo tanto'')"
    by (simp add: noFewer_def list_defs eval_defs)
  have h3: "noFewer depthIndicators (str ''por lo tanto'') (str ''por lo tanto por lo tanto'')"
    by (simp add: noFewer_def list_defs eval_defs)
  have h4: "noFewer breadthIndicators (str ''por lo tanto'') (str ''por lo tanto por lo tanto'')"
    by (simp add: noFewer_def list_defs eval_defs)
  have h5: "noFewer connectionIndicators (str ''por lo tanto'') (str ''por lo tanto por lo tanto'')"
    by (simp add: noFewer_def list_defs eval_defs)
  have h6: "noFewer fallacyIndicators (str ''por lo tanto por lo tanto'') (str ''por lo tanto'')"
    by (simp add: noFewer_def list_defs eval_defs)
  have h7: "noFewer (concat (map snd evidenceTypesTable))
         (str ''por lo tanto'') (str ''por lo tanto por lo tanto'')"
    by (simp add: noFewer_def list_defs eval_defs)
  have h8: "noFewer (questionIndicators @ analysisIndicators @ evaluationIndicators
                @ synthesisIndicators @ metacognitionIndicators)
         (str ''por lo tanto'') (str ''por lo tanto por lo tanto'')"
    by (simp add: noFewer_def list_defs eval_defs)
  have h9: "occurrences (str ''por lo tanto'') (str ''por lo tanto'')
       < occurrences (str ''por lo tanto por lo tanto'') (str ''por lo tanto'')"
    by (simp add: eval_defs)
  from h1 h2 h3 h4 h5 h6 h7 h8 h9
    C10_positive_indicators_monotone
      [of "str ''por lo tanto''" "str ''por lo tanto por lo tanto''"]
  show ?thesis by blast
qed

subsection \<open>The sample analysis\<close>

text \<open>
  The rules that carry out a scan of an explicit text, kept apart from the arithmetic of
  the simplifier.
\<close>

lemmas scan_simps = splitFrom.simps startsWith.simps stringIncludes.simps
  numeral_eq_iff num.inject num.distinct simp_thms if_True if_False
  list.inject list.distinct drop_Suc_Cons drop_0 list.size add_Suc_right add_0_right

text \<open>The code units of the sample text, which is in lower case already.\<close>

lemma sampleText_lower:
  "toLowerCase sampleText =
     [102, 117, 101, 110, 116, 101, 32, 102, 117, 101, 110, 116, 101, 32, 102, 117, 101, 110,
      116, 101, 32, 102, 117, 101, 110, 116, 101, 32, 99, 114, 101, 111, 32, 113, 117, 101, 32,
      99, 114, 101, 111, 32, 113, 117, 101, 32, 99, 114, 101, 111, 32, 113, 117, 101, 32, 99,
      114, 101, 111, 32, 113, 117, 101, 32, 99, 114, 101, 97, 114, 32, 99, 114, 101, 97, 114,
      32, 99, 114, 101, 97, 114, 32, 99, 114, 101, 97, 114]"
  by (simp add: sampleText_def str_def toLowerCase_def toLowerCaseUnit_def)

lemma sample_counts:
  "indicatorCount sampleText coherenceIndicators = 0"
  "indicatorCount sampleText structureIndicators = 0"
  "indicatorCount sampleText depthIndicators = 0"
  "indicatorCount sampleText breadthIndicators = 0"
  "indicatorCount sampleText connectionIndicators = 0"
  "indicatorCount sampleText fallacyIndicators = 0"
  "indicatorCount sampleText sourceIndicators = 4"
  "indicatorCount sampleText questionIndicators = 0"
  "indicatorCount sampleText analysisIndicators = 0"
  "indicatorCount sampleText evaluationIndicators = 0"
  "indicatorCount sampleText synthesisIndicators = 0"
  "indicatorCount sampleText metacognitionIndicators = 0"
  "indicatorCount sampleText personalIndicators = 4"
  "indicatorCount sampleText creativeIndicators = 4"
  "map (\<lambda>(type, indicators). (type, indicatorCount sampleText indicators)) evidenceTypesTable =
     [(str ''statistics'', 0), (str ''examples'', 0), (str ''quotes'', 0),
      (str ''references'', 4)]"
  apply (simp_all add: indicatorCount_def occurrences_def splitString_def list_defs
      str_def sampleText_lower del: splitFrom.simps startsWith.simps)
  apply (simp_all only: scan_simps cong: if_weak_cong)
  apply simp_all
  done

lemma sample_flags:
  "someIncluded sampleText introIndicators = False"
  "someIncluded sampleText conclusionIndicators = False"
  "someIncluded sampleText thesisIndicators = True"
  apply (simp_all add: someIncluded_def list_defs
      str_def sampleText_lower del: stringIncludes.simps startsWith.simps)
  apply (simp_all only: scan_simps cong: if_weak_cong)
  done

lemma sample_sentences:
  "filter (\<lambda>s. trimString s \<noteq> []) (splitSentences sampleText) = [sampleText]"
  "calculateAverageSentenceLength [sampleText] = 87"
  "detectBody sampleText = False"
  by (simp_all add: sampleText_def str_def splitSentences_def isSentenceEnd_def trimString_def
      isWhiteSpace_def calculateAverageSentenceLength_def detectBody_def)

text \<open>
  The sample analysis is what the formulas of the class give for the sample text, with
  the first definition of the source dependency in the two places where the class calls
  the self-calling one.
\<close>

lemma sampleAnalysis_from_text:
  "structure sampleAnalysis = analyzeStructure sampleText"
  "content sampleAnalysis = analyzeContent sampleText"
  "reasoning sampleAnalysis = analyzeReasoning sampleText"
  "evidence sampleAnalysis =
     \<lparr> evidenceCount = indicators_count (extractEvidenceIndicators sampleText),
       evidenceTypes = indicators_types (extractEvidenceIndicators sampleText),
       evidenceQuality = assessEvidenceQuality sampleText,
       evidence_sourceDependency = assessSourceDependency_first sampleText,
       evidenceRelevance = assessEvidenceRelevance sampleText \<rparr>"
  "criticalThinking sampleAnalysis = analyzeCriticalThinking sampleText"
  "originality sampleAnalysis =
     \<lparr> originality_sourceDependency = assessSourceDependency_first sampleText,
       personalInsights = detectPersonalInsights sampleText,
       creativeElements = detectCreativeElements sampleText,
       originalityScore =
         max 0 (min 1 (of_int (detectPersonalInsights sampleText
                                 + detectCreativeElements sampleText) / 5
                       - assessSourceDependency_first sampleText)) \<rparr>"
  by (simp_all add: sampleAnalysis_def analyzeStructure_def analyzeContent_def
      analyzeReasoning_def analyzeCriticalThinking_def detectIntroduction_def
      detectConclusion_def assessCoherence_def assessOrganization_def detectThesis_def
      assessThesisClarity_def assessTopicRelevance_def assessDepth_def assessBreadth_def
      detectLogicalConnections_def assessArgumentFlow_def assessConsistency_def
      detectFallacies_def assessReasoningQuality_def extractEvidenceIndicators_def
      assessEvidenceQuality_def assessSourceDependency_first_def assessEvidenceRelevance_def
      detectQuestioning_def detectAnalysis_def detectEvaluation_def detectSynthesis_def
      detectMetacognition_def calculateCriticalThinkingLevel_def detectPersonalInsights_def
      detectCreativeElements_def Let_def sample_counts sample_flags sample_sentences)

subsection \<open>Weaknesses and strengths of one analysis\<close>

lemma area_names_distinct:
  "str ''Tesis'' \<noteq> str ''Evidencia''" "str ''Tesis'' \<noteq> str ''Originalidad''"
  "str ''Tesis'' \<noteq> str ''Razonamiento''"
  "str ''Evidencia'' \<noteq> str ''Originalidad''" "str ''Evidencia'' \<noteq> str ''Razonamiento''"
  "str ''Originalidad'' \<noteq> str ''Razonamiento''"
  "str ''Pensamiento Cr'' @ [237] @ str ''tico'' \<noteq> str ''Tesis''"
  "str ''Pensamiento Cr'' @ [237] @ str ''tico'' \<noteq> str ''Evidencia''"
  "str ''Pensamiento Cr'' @ [237] @ str ''tico'' \<noteq> str ''Originalidad''"
  "str ''Pensamiento Cr'' @ [237] @ str ''tico'' \<noteq> str ''Razonamiento''"
  by (simp_all add: str_def)

lemma weakness_areas:
  "set (map weakness_area (identifyWeaknesses a)) =
     (if thesisClarity (content a) < 6 / 10 then {str ''Tesis''} else {})
     \<union> (if evidenceCount (evidence a) < 2 then {str ''Evidencia''} else {})
     \<union> (if originality_sourceDependency (originality a) > 7 / 10
         then {str ''Originalidad''} else {})
     \<union> (if reasoningQuality (reasoning a) < 6 / 10 then {str ''Razonamiento''} else {})
     \<union> (if overallLevel (criticalThinking a) < 5 / 10
         then {str ''Pensamiento Cr'' @ [237] @ str ''tico''} else {})"
  by (simp add: identifyWeaknesses_def)

lemma strength_areas:
  "set (map strength_area (identifyStrengths a)) =
     (if thesisClarity (content a) > 8 / 10 then {str ''Tesis''} else {})
     \<union> (if evidenceCount (evidence a) \<ge> 3 then {str ''Evidencia''} else {})
     \<union> (if originalityScore (originality a) > 6 / 10 then {str ''Originalidad''} else {})
     \<union> (if reasoningQuality (reasoning a) > 8 / 10 then {str ''Razonamiento''} else {})"
  by (simp add: identifyStrengths_def)

text \<open>
  Counterexample to claim C4 as stated: in the sample analysis the source dependency is
  0.8 and the originality score is 0.8, so the area ``Originalidad'' is in the list of
  weaknesses (type \<^verbatim>\<open>source_dependency\<close>) and in the list of strengths.
\<close>

theorem C4_originality_weakness_and_strength_coexist:
  "str ''Originalidad'' \<in> set (map weakness_area (identifyWeaknesses sampleAnalysis))
   \<and> str ''Originalidad'' \<in> set (map strength_area (identifyStrengths sampleAnalysis))
   \<and> set (map weakness_area (identifyWeaknesses sampleAnalysis))
       \<inter> set (map strength_area (identifyStrengths sampleAnalysis)) \<noteq> {}"
  unfolding weakness_areas strength_areas
  by (simp add: sampleAnalysis_def)

text \<open>
  Claim C4, amended. For every analysis, the areas thesis, evidence and reasoning never
  appear both among the weaknesses and among the strengths, and critical thinking has no
  strength rule. The area originality appears in both lists exactly when the source
  dependency is above 0.7 and the originality score is above 0.6: the two rules read
  different fields.
\<close>

theorem C4_only_originality_can_be_both:
  "set (map weakness_area (identifyWeaknesses a)) \<inter> set (map strength_area (identifyStrengths a))
     = (if originality_sourceDependency (originality a) > 7 / 10
           \<and> originalityScore (originality a) > 6 / 10
        then {str ''Originalidad''} else {})"
  unfolding weakness_areas strength_areas
  using area_names_distinct area_names_distinct [symmetric]
  by (auto split: if_splits)

subsection \<open>The total of the summary and the trend\<close>

text \<open>
  Claim C2 takes the \<^verbatim>\<open>total\<close> of the summary to be the mean of the per-dimension
  scores. \<^verbatim>\<open>calculateOverallScores\<close> sets it to 0 and announces a calculation that the
  class does not contain: the total of every analysis is 0, and for the sample analysis
  the six per-dimension scores have the mean 109/360.
\<close>

theorem C2_total_is_never_calculated:
  "total (calculateOverallScores a) = 0
   \<and> total (calculateOverallScores sampleAnalysis) = 0
   \<and> (overall_structure (calculateOverallScores sampleAnalysis)
       + overall_content (calculateOverallScores sampleAnalysis)
       + overall_reasoning (calculateOverallScores sampleAnalysis)
       + overall_evidence (calculateOverallScores sampleAnalysis)
       + overall_criticalThinking (calculateOverallScores sampleAnalysis)
       + overall_originality (calculateOverallScores sampleAnalysis)) / 6 = 109 / 360"
  by (simp add: calculateOverallScores_def sampleAnalysis_def)

text \<open>
  The trend itself: on a history of six entries whose totals are 0.2, 0.2, 0.2, 0.8, 0.8,
  0.8, \<^verbatim>\<open>calculateProgress\<close> reports an improvement of 0.6.
\<close>

lemma calculateAverageScore_three:
  "calculateAverageScore [e1, e2, e3] =
     (total (overall (analysis e1)) + total (overall (analysis e2))
        + total (overall (analysis e3))) / 3"
  by (simp add: calculateAverageScore_def)

lemma slice_six:
  "slice [e1, e2, e3, e4, e5, e6] (- 3) (int (length [e1, e2, e3, e4, e5, e6])) = [e4, e5, e6]"
  "slice [e1, e2, e3, e4, e5, e6] (- 6) (- 3) = [e1, e2, e3]"
  by (simp_all add: slice_def)

lemma calculateProgress_six_entries:
  assumes history: "analysisHistory sessionId = Some [e1, e2, e3, e4, e5, e6]"
    and totals: "map (\<lambda>e. total (overall (analysis e))) [e1, e2, e3, e4, e5, e6]
           = [2 / 10, 2 / 10, 2 / 10, 8 / 10, 8 / 10, 8 / 10]"
  shows "calculateProgress analysisHistory sessionId =
           \<lparr> trend = str ''improving'', improvement = 6 / 10,
             currentScore = Some (8 / 10), previousScore = Some (2 / 10) \<rparr>"
proof -
  from totals have t:
    "total (overall (analysis e1)) = 2 / 10" "total (overall (analysis e2)) = 2 / 10"
    "total (overall (analysis e3)) = 2 / 10" "total (overall (analysis e4)) = 8 / 10"
    "total (overall (analysis e5)) = 8 / 10" "total (overall (analysis e6)) = 8 / 10"
    by simp_all
  have older: "calculateAverageScore [e1, e2, e3] = 2 / 10"
    unfolding calculateAverageScore_three t by simp
  have recent: "calculateAverageScore [e4, e5, e6] = 8 / 10"
    unfolding calculateAverageScore_three t by simp
  show ?thesis
    unfolding calculateProgress_def history option.case slice_six Let_def older recent
    by simp
qed

subsection \<open>The template tables\<close>

text \<open>
  Counterexample to claim C6 as stated: the table of micro-challenges has no entry for
  \<^verbatim>\<open>source_dependency\<close>, a type that \<^verbatim>\<open>identifyWeaknesses\<close> produces (for the
  sample analysis), and \<^verbatim>\<open>createMicroChallenge\<close> returns \<^verbatim>\<open>null\<close> for it.
\<close>

theorem C6_no_challenge_for_source_dependency:
  "map_of challengeTemplates (str ''source_dependency'') = None
   \<and> str ''source_dependency'' \<in> set (map weakness_type (identifyWeaknesses sampleAnalysis))
   \<and> createMicroChallenge
        \<lparr> weakness_type = str ''source_dependency'', weakness_area = str ''Originalidad'',
          weakness_score = 1 / 5, weakness_priority = str ''high'' \<rparr>
        (str ''challenge_1'') = None"
  by (simp add: challengeTemplates_def createMicroChallenge_def identifyWeaknesses_def
      sampleAnalysis_def str_def)

text \<open>
  Claim C6, amended. The feedback table has an entry for each of the five weakness types
  that \<^verbatim>\<open>identifyWeaknesses\<close> produces; the micro-challenge table has an entry for
  four of them: \<^verbatim>\<open>thesis_weak\<close>, \<^verbatim>\<open>evidence_lacking\<close>, \<^verbatim>\<open>reasoning_weak\<close> and
  \<^verbatim>\<open>critical_thinking_low\<close>, and none for \<^verbatim>\<open>source_dependency\<close>.
\<close>

theorem C6_template_tables:
  "map fst initializeFeedbackTemplates =
     [str ''thesis_weak'', str ''evidence_lacking'', str ''source_dependency'',
      str ''reasoning_weak'', str ''critical_thinking_low'']
   \<and> map fst challengeTemplates =
     [str ''thesis_weak'', str ''evidence_lacking'', str ''reasoning_weak'',
      str ''critical_thinking_low'']
   \<and> dom (map_of initializeFeedbackTemplates) =
     {str ''thesis_weak'', str ''evidence_lacking'', str ''source_dependency'',
      str ''reasoning_weak'', str ''critical_thinking_low''}
   \<and> dom (map_of challengeTemplates) =
     {str ''thesis_weak'', str ''evidence_lacking'', str ''reasoning_weak'',
      str ''critical_thinking_low''}
   \<and> str ''source_dependency'' \<notin> dom (map_of challengeTemplates)
   \<and> set (map weakness_type (identifyWeaknesses a)) \<subseteq>
     {str ''thesis_weak'', str ''evidence_lacking'', str ''source_dependency'',
      str ''reasoning_weak'', str ''critical_thinking_low''}"
  by (auto simp: initializeFeedbackTemplates_def challengeTemplates_def dom_map_of_conv_image_fst
      identifyWeaknesses_def str_def)

subsection \<open>The learning style detector\<close>

lemmas style_list_defs = visualIndicators_def auditoryIndicators_def readingIndicators_def
  kinestheticIndicators_def

lemma style_names_distinct:
  "str ''visual'' \<noteq> str ''auditory''" "str ''visual'' \<noteq> str ''reading''"
  "str ''visual'' \<noteq> str ''kinesthetic''" "str ''auditory'' \<noteq> str ''reading''"
  "str ''auditory'' \<noteq> str ''kinesthetic''" "str ''reading'' \<noteq> str ''kinesthetic''"
  by (simp_all add: str_def)

text \<open>The detector, as a function of the four counts.\<close>

lemma detectLearningStyle_by_counts:
  fixes msg :: jsstring
  defines "v \<equiv> countIndicators (toLowerCase msg) visualIndicators"
    and "a \<equiv> countIndicators (toLowerCase msg) auditoryIndicators"
    and "r \<equiv> countIndicators (toLowerCase msg) readingIndicators"
    and "k \<equiv> countIndicators (toLowerCase msg) kinestheticIndicators"
  shows "detectLearningStyle msg =
           (if 2 \<le> max (max (max v a) r) k
            then Some (if max (max v a) r \<le> k then str ''kinesthetic''
                       else if max v a \<le> r then str ''reading''
                       else if v \<le> a then str ''auditory''
                       else str ''visual'')
            else None)"
  using style_names_distinct style_names_distinct [symmetric]
  unfolding detectLearningStyle_def styleScores_def scoreGreater_def Let_def v_def a_def r_def k_def
  by (simp add: max_def)

lemma tieMessage_scores:
  "styleScores (toLowerCase tieMessage) =
     [(str ''visual'', 3), (str ''auditory'', 3), (str ''reading'', 0), (str ''kinesthetic'', 0)]"
  by (simp add: styleScores_def tieMessage_def countIndicators_def style_list_defs
      str_def toLowerCase_def toLowerCaseUnit_def splitString_def)

text \<open>
  Counterexample to claim C7 as stated: with three visual and three auditory keywords the
  detector answers ``auditory'', the later of the two in the order of the keys, not the
  first.
\<close>

theorem C7_tie_resolves_to_later_style:
  "styleScores (toLowerCase tieMessage) =
     [(str ''visual'', 3), (str ''auditory'', 3), (str ''reading'', 0), (str ''kinesthetic'', 0)]
   \<and> detectLearningStyle tieMessage = Some (str ''auditory'')
   \<and> detectLearningStyle tieMessage \<noteq> Some (str ''visual'')"
  using style_names_distinct
  by (simp add: detectLearningStyle_def Let_def tieMessage_scores scoreGreater_def)

text \<open>
  Claim C7, amended. When the maximum of the four keyword counts is at least 2, the
  detector returns the last style, in the order visual, auditory, reading, kinesthetic,
  whose count is the maximum; being a function of the message, it returns the same style
  on every run.
\<close>

theorem C7_ties_go_to_last_style_in_order:
  "(let text = toLowerCase msg;
        v = countIndicators text visualIndicators;
        a = countIndicators text auditoryIndicators;
        r = countIndicators text readingIndicators;
        k = countIndicators text kinestheticIndicators;
        m = max (max (max v a) r) k
    in 2 \<le> m \<longrightarrow>
         detectLearningStyle msg =
           Some (if k = m then str ''kinesthetic''
                 else if r = m then str ''reading''
                 else if a = m then str ''auditory''
                 else str ''visual''))"
  unfolding Let_def detectLearningStyle_by_counts
  by (simp add: max_def)

text \<open>The theorem at the message with three visual and three auditory keywords.\<close>

theorem C7_ties_witness:
  "countIndicators (toLowerCase tieMessage) visualIndicators = 3
   \<and> countIndicators (toLowerCase tieMessage) auditoryIndicators = 3
   \<and> countIndicators (toLowerCase tieMessage) readingIndicators = 0
   \<and> countIndicators (toLowerCase tieMessage) kinestheticIndicators = 0
   \<and> (2::int) \<le> max (max (max 3 3) 0) 0
   \<and> detectLearningStyle tieMessage = Some (str ''auditory'')"
proof -
  have counts:
    "countIndicators (toLowerCase tieMessage) visualIndicators = 3"
    "countIndicators (toLowerCase tieMessage) auditoryIndicators = 3"
    "countIndicators (toLowerCase tieMessage) readingIndicators = 0"
    "countIndicators (toLowerCase tieMessage) kinestheticIndicators = 0"
    using tieMessage_scores by (simp_all add: styleScores_def)
  from C7_ties_go_to_last_style_in_order [of tieMessage]
  have "detectLearningStyle tieMessage = Some (str ''auditory'')"
    unfolding Let_def counts by simp
  with counts show ?thesis by simp
qed

text \<open>
  Claim C8. For every message, the detector returns no style when the maximum of the four
  keyword counts is less than 2, also when one style alone has that maximum, and returns
  a style whose count is the maximum when the maximum is at least 2.
\<close>

theorem C8_style_needs_two_hits:
  "(let text = toLowerCase msg;
        v = countIndicators text visualIndicators;
        a = countIndicators text auditoryIndicators;
        r = countIndicators text readingIndicators;
        k = countIndicators text kinestheticIndicators;
        m = max (max (max v a) r) k
    in (m < 2 \<longrightarrow> detectLearningStyle msg = None)
       \<and> (2 \<le> m \<longrightarrow>
            (\<exists>style. detectLearningStyle msg = Some style
                     \<and> map_of (styleScores text) style = Some m)))"
  using style_names_distinct style_names_distinct [symmetric]
  unfolding Let_def detectLearningStyle_by_counts styleScores_def
  by (simp add: max_def)

text \<open>
  The theorem at ``veo'' (one visual keyword, the only maximum: no style) and at
  ``veo veo'' (two: visual).
\<close>

lemma one_hit_scores:
  "styleScores (toLowerCase (str ''veo'')) =
     [(str ''visual'', 1), (str ''auditory'', 0), (str ''reading'', 0), (str ''kinesthetic'', 0)]"
  by (simp add: styleScores_def countIndicators_def style_list_defs
      str_def toLowerCase_def toLowerCaseUnit_def splitString_def)

lemma two_hit_scores:
  "styleScores (toLowerCase (str ''veo veo'')) =
     [(str ''visual'', 2), (str ''auditory'', 0), (str ''reading'', 0), (str ''kinesthetic'', 0)]"
  by (simp add: styleScores_def countIndicators_def style_list_defs
      str_def toLowerCase_def toLowerCaseUnit_def splitString_def)

theorem C8_style_needs_two_hits_witness:
  "styleScores (toLowerCase (str ''veo'')) =
     [(str ''visual'', 1), (str ''auditory'', 0), (str ''reading'', 0), (str ''kinesthetic'', 0)]
   \<and> detectLearningStyle (str ''veo'') = None
   \<and> styleScores (toLowerCase (str ''veo veo'')) =
     [(str ''visual'', 2), (str ''auditory'', 0), (str ''reading'', 0), (str ''kinesthetic'', 0)]
   \<and> detectLearningStyle (str ''veo veo'') = Some (str ''visual'')"
proof -
  have one:
    "countIndicators (toLowerCase (str ''veo'')) visualIndicators = 1"
    "countIndicators (toLowerCase (str ''veo'')) auditoryIndicators = 0"
    "countIndicators (toLowerCase (str ''veo'')) readingIndicators = 0"
    "countIndicators (toLowerCase (str ''veo'')) kinestheticIndicators = 0"
    using one_hit_scores by (simp_all add: styleScores_def)
  have two:
    "countIndicators (toLowerCase (str ''veo veo'')) visualIndicators = 2"
    "countIndicators (toLowerCase (str ''veo veo'')) auditoryIndicators = 0"
    "countIndicators (toLowerCase (str ''veo veo'')) readingIndicators = 0"
    "countIndicators (toLowerCase (str ''veo veo'')) kinestheticIndicators = 0"
    using two_hit_scores by (simp_all add: styleScores_def)
  from C8_style_needs_two_hits [of "str ''veo''"]
  have none: "detectLearningStyle (str ''veo'') = None"
    unfolding Let_def one by simp
  from C8_style_needs_two_hits [of "str ''veo veo''"]
  have "\<exists>style. detectLearningStyle (str ''veo veo'') = Some style
            \<and> map_of (styleScores (toLowerCase (str ''veo veo''))) style = Some 2"
    unfolding Let_def two by simp
  then have some: "detectLearningStyle (str ''veo veo'') = Some (str ''visual'')"
    unfolding two_hit_scores by (auto split: if_splits)
  from none some one_hit_scores two_hit_scores show ?thesis by simp
qed

subsection \<open>Message processing\<close>

lemma executeAgentAction_unregistered:
  "agents mcp agentId = None \<Longrightarrow>
   executeAgentAction hs mcp agentId payload now w =
     (Inl (str ''Agent '' @ agentId @ str '' not found''), mcp, w)"
  by (simp add: executeAgentAction_def)

lemma processMessage_result:
  assumes "agents mcp (msg_to m) = Some ag"
    and "executeAgentAction hs mcp (msg_to m)
           \<lparr> payload_message = msg_content m,
             payload_context = contexts mcp (msg_sessionId m),
             payload_metadata = \<lparr> metadata_from = msg_from m,
                                  metadata_sessionId = msg_sessionId m,
                                  metadata_timestamp = msg_timestamp m \<rparr> \<rparr> now w = (r, mcp', w')"
  shows "processMessage hs mcp m now w =
     (case r of
        Inr response \<Rightarrow>
          (\<lparr> success = True, messageId = msg_id m,
             result_response = Some response, result_error = None \<rparr>,
           m\<lparr> msg_status := str ''completed'', msg_response := Some response \<rparr>, mcp', w')
      | Inl e \<Rightarrow>
          (\<lparr> success = False, messageId = msg_id m,
             result_response = None, result_error = Some e \<rparr>,
           m\<lparr> msg_status := str ''failed'', msg_error := Some e \<rparr>, mcp', w'))"
  using assms by (simp add: processMessage_def Let_def split: sum.splits)

lemma agent_names_distinct:
  "str ''student-agent'' \<noteq> str ''teacher-agent''" "str ''student-agent'' \<noteq> str ''a2a-agent''"
  "str ''student-agent'' \<noteq> str ''analysis-agent''" "str ''teacher-agent'' \<noteq> str ''a2a-agent''"
  "str ''teacher-agent'' \<noteq> str ''analysis-agent''" "str ''a2a-agent'' \<noteq> str ''analysis-agent''"
  by (simp_all add: str_def)

text \<open>
  Claim C9. \<^verbatim>\<open>processMessage\<close> always returns a result. For a target that is not
  registered it returns the failure with the message identifier and the error ``Agent ...
  not found'', marks the message failed, and leaves the router and the outside state as
  they were, whatever the handlers are: no handler runs. For a registered target without a
  role handler it returns the failure ``Unknown agent type: ...'' and the outside state is
  unchanged. When the handler of the target throws, the error it threw is returned as a
  failure and the message is marked failed. In every case the result carries the
  identifier of the message and is either a success with the message completed or a
  failure with the message failed and the error recorded on it.
\<close>

theorem C9_processMessage_returns_failure_results:
  fixes hs :: "('m, 'x, 'r, 'w) handlers_t" and mcp :: "('cfg, 'x) mcp_t"
    and m :: "('m, 'r) message_t"
  shows
  "(let payload = \<lparr> payload_message = msg_content m,
                     payload_context = contexts mcp (msg_sessionId m),
                     payload_metadata = \<lparr> metadata_from = msg_from m,
                                          metadata_sessionId = msg_sessionId m,
                                          metadata_timestamp = msg_timestamp m \<rparr> \<rparr>;
        failure = (\<lambda>e. \<lparr> success = False, messageId = msg_id m,
                          result_response = None, result_error = Some e \<rparr>);
        failed = (\<lambda>e. m\<lparr> msg_status := str ''failed'', msg_error := Some e \<rparr>);
        touched = (\<lambda>ag. mcp\<lparr> agents := (agents mcp)(msg_to m \<mapsto> ag\<lparr> lastActivity := now \<rparr>) \<rparr>);
        unknown = str ''Agent '' @ msg_to m @ str '' not found'';
        untyped = str ''Unknown agent type: '' @ msg_to m
    in (agents mcp (msg_to m) = None \<longrightarrow>
          processMessage hs mcp m now w = (failure unknown, failed unknown, mcp, w))
       \<and> (agents mcp (msg_to m) = Some ag
            \<and> msg_to m \<notin> {str ''student-agent'', str ''teacher-agent'', str ''a2a-agent'',
                            str ''analysis-agent''} \<longrightarrow>
          processMessage hs mcp m now w = (failure untyped, failed untyped, touched ag, w))
       \<and> (agents mcp (msg_to m) = Some ag \<and> msg_to m = str ''student-agent''
            \<and> handleStudentAgent hs payload w = (Inl e, w') \<longrightarrow>
          processMessage hs mcp m now w = (failure e, failed e, touched ag, w'))
       \<and> (agents mcp (msg_to m) = Some ag \<and> msg_to m = str ''teacher-agent''
            \<and> handleTeacherAgent hs payload w = (Inl e, w') \<longrightarrow>
          processMessage hs mcp m now w = (failure e, failed e, touched ag, w'))
       \<and> (agents mcp (msg_to m) = Some ag \<and> msg_to m = str ''a2a-agent''
            \<and> handleA2AAgent hs payload w = (Inl e, w') \<longrightarrow>
          processMessage hs mcp m now w = (failure e, failed e, touched ag, w'))
       \<and> (agents mcp (msg_to m) = Some ag \<and> msg_to m = str ''analysis-agent''
            \<and> handleAnalysisAgent hs payload w = (Inl e, w') \<longrightarrow>
          processMessage hs mcp m now w = (failure e, failed e, touched ag, w'))
       \<and> (case processMessage hs mcp m now w of
             (result, m', mcp', w') \<Rightarrow>
               messageId result = msg_id m
               \<and> (if success result
                   then msg_status m' = str ''completed'' \<and> result_error result = None
                        \<and> result_response result \<noteq> None
                   else msg_status m' = str ''failed'' \<and> result_response result = None
                        \<and> result_error result \<noteq> None \<and> msg_error m' = result_error result)))"
proof -
  let ?payload = "\<lparr> payload_message = msg_content m,
                     payload_context = contexts mcp (msg_sessionId m),
                     payload_metadata = \<lparr> metadata_from = msg_from m,
                                          metadata_sessionId = msg_sessionId m,
                                          metadata_timestamp = msg_timestamp m \<rparr> \<rparr>"
  have shape: "case processMessage hs mcp m now w of
             (result, m', mcp', w') \<Rightarrow>
               messageId result = msg_id m
               \<and> (if success result
                   then msg_status m' = str ''completed'' \<and> result_error result = None
                        \<and> result_response result \<noteq> None
                   else msg_status m' = str ''failed'' \<and> result_response result = None
                        \<and> result_error result \<noteq> None \<and> msg_error m' = result_error result)"
  proof (cases "agents mcp (msg_to m)")
    case None
    then show ?thesis by (simp add: processMessage_def Let_def)
  next
    case (Some ag')
    obtain r mcp' w'' where
      ex: "executeAgentAction hs mcp (msg_to m) ?payload now w = (r, mcp', w'')"
      by (cases "executeAgentAction hs mcp (msg_to m) ?payload now w") auto
    show ?thesis
      unfolding processMessage_result [OF Some ex] by (cases r) simp_all
  qed
  show ?thesis
    unfolding Let_def
    using agent_names_distinct shape
    by (auto simp: processMessage_def executeAgentAction_def Let_def)
qed

text \<open>
  The theorem on the sample router: a message to an agent that is not registered, one to
  the registered agent without a handler, and one to each of the four roles, whose
  handlers throw.
\<close>

lemma sampleRouter_agents:
  "agents sampleRouter (str ''ghost-agent'') = None"
  "agents sampleRouter (str ''other-agent'') =
     Some \<lparr> agent_id = str ''other-agent'', agent_config = (), agent_status = str ''active'',
            lastActivity = 1 \<rparr>"
  "agents sampleRouter (str ''student-agent'') =
     Some \<lparr> agent_id = str ''student-agent'', agent_config = (), agent_status = str ''active'',
            lastActivity = 1 \<rparr>"
  "agents sampleRouter (str ''teacher-agent'') =
     Some \<lparr> agent_id = str ''teacher-agent'', agent_config = (), agent_status = str ''active'',
            lastActivity = 1 \<rparr>"
  "agents sampleRouter (str ''a2a-agent'') =
     Some \<lparr> agent_id = str ''a2a-agent'', agent_config = (), agent_status = str ''active'',
            lastActivity = 1 \<rparr>"
  "agents sampleRouter (str ''analysis-agent'') =
     Some \<lparr> agent_id = str ''analysis-agent'', agent_config = (), agent_status = str ''active'',
            lastActivity = 1 \<rparr>"
  by (simp_all add: sampleRouter_def registerAgent_def str_def)

theorem C9_processMessage_witness:
  "agents sampleRouter (str ''ghost-agent'') = None
   \<and> fst (processMessage sampleHandlers sampleRouter (sampleMessage (str ''ghost-agent'')) 9 0) =
       \<lparr> success = False, messageId = str ''msg_1'', result_response = None,
         result_error = Some (str ''Agent ghost-agent not found'') \<rparr>
   \<and> msg_status (fst (snd (processMessage sampleHandlers sampleRouter
         (sampleMessage (str ''ghost-agent'')) 9 0))) = str ''failed''
   \<and> snd (snd (processMessage sampleHandlers sampleRouter
         (sampleMessage (str ''ghost-agent'')) 9 0)) = (sampleRouter, 0)
   \<and> fst (processMessage sampleHandlers sampleRouter (sampleMessage (str ''other-agent'')) 9 0) =
       \<lparr> success = False, messageId = str ''msg_1'', result_response = None,
         result_error = Some (str ''Unknown agent type: other-agent'') \<rparr>
   \<and> snd (snd (snd (processMessage sampleHandlers sampleRouter
         (sampleMessage (str ''other-agent'')) 9 0))) = 0
   \<and> fst (processMessage sampleHandlers sampleRouter (sampleMessage (str ''student-agent'')) 9 0) =
       \<lparr> success = False, messageId = str ''msg_1'', result_response = None,
         result_error = Some (str ''student handler failed'') \<rparr>
   \<and> msg_status (fst (snd (processMessage sampleHandlers sampleRouter
         (sampleMessage (str ''student-agent'')) 9 0))) = str ''failed''
   \<and> snd (snd (snd (processMessage sampleHandlers sampleRouter
         (sampleMessage (str ''student-agent'')) 9 0))) = 1
   \<and> result_error (fst (processMessage sampleHandlers sampleRouter
         (sampleMessage (str ''teacher-agent'')) 9 0)) = Some (str ''teacher handler failed'')
   \<and> result_error (fst (processMessage sampleHandlers sampleRouter
         (sampleMessage (str ''a2a-agent'')) 9 0)) = Some (str ''a2a handler failed'')
   \<and> result_error (fst (processMessage sampleHandlers sampleRouter
         (sampleMessage (str ''analysis-agent'')) 9 0)) = Some (str ''analysis handler failed'')"
proof -
  note inst = C9_processMessage_returns_failure_results
    [where hs = sampleHandlers and mcp = sampleRouter and now = 9 and w = 0, unfolded Let_def]
  have ghost: "processMessage sampleHandlers sampleRouter (sampleMessage (str ''ghost-agent'')) 9 0 =
      (\<lparr> success = False, messageId = str ''msg_1'', result_response = None,
         result_error = Some (str ''Agent ghost-agent not found'') \<rparr>,
       (sampleMessage (str ''ghost-agent''))
         \<lparr> msg_status := str ''failed'',
           msg_error := Some (str ''Agent ghost-agent not found'') \<rparr>,
       sampleRouter, 0)"
    using inst [where m = "sampleMessage (str ''ghost-agent'')"] sampleRouter_agents(1)
    by (simp add: sampleMessage_def str_def)
  have other: "processMessage sampleHandlers sampleRouter (sampleMessage (str ''other-agent'')) 9 0 =
      (\<lparr> success = False, messageId = str ''msg_1'', result_response = None,
         result_error = Some (str ''Unknown agent type: other-agent'') \<rparr>,
       (sampleMessage (str ''other-agent''))
         \<lparr> msg_status := str ''failed'',
           msg_error := Some (str ''Unknown agent type: other-agent'') \<rparr>,
       sampleRouter\<lparr> agents := (agents sampleRouter)(str ''other-agent'' \<mapsto>
         \<lparr> agent_id = str ''other-agent'', agent_config = (), agent_status = str ''active'',
           lastActivity = 9 \<rparr>) \<rparr>, 0)"
    using inst [where m = "sampleMessage (str ''other-agent'')"
                  and ag = "\<lparr> agent_id = str ''other-agent'', agent_config = (),
                              agent_status = str ''active'', lastActivity = 1 \<rparr>"]
      sampleRouter_agents(2)
    by (simp add: sampleMessage_def str_def)
  have student:
    "processMessage sampleHandlers sampleRouter (sampleMessage (str ''student-agent'')) 9 0 =
      (\<lparr> success = False, messageId = str ''msg_1'', result_response = None,
         result_error = Some (str ''student handler failed'') \<rparr>,
       (sampleMessage (str ''student-agent''))
         \<lparr> msg_status := str ''failed'', msg_error := Some (str ''student handler failed'') \<rparr>,
       sampleRouter\<lparr> agents := (agents sampleRouter)(str ''student-agent'' \<mapsto>
         \<lparr> agent_id = str ''student-agent'', agent_config = (), agent_status = str ''active'',
           lastActivity = 9 \<rparr>) \<rparr>, 1)"
    using inst [where m = "sampleMessage (str ''student-agent'')"
                  and ag = "\<lparr> agent_id = str ''student-agent'', agent_config = (),
                              agent_status = str ''active'', lastActivity = 1 \<rparr>"
                  and e = "str ''student handler failed''" and w' = 1]
      sampleRouter_agents(3)
    by (simp add: sampleMessage_def sampleHandlers_def)
  have teacher:
    "result_error (fst (processMessage sampleHandlers sampleRouter
         (sampleMessage (str ''teacher-agent'')) 9 0)) = Some (str ''teacher handler failed'')"
    using inst [where m = "sampleMessage (str ''teacher-agent'')"
                  and ag = "\<lparr> agent_id = str ''teacher-agent'', agent_config = (),
                              agent_status = str ''active'', lastActivity = 1 \<rparr>"
                  and e = "str ''teacher handler failed''" and w' = 1]
      sampleRouter_agents(4)
    by (simp add: sampleMessage_def sampleHandlers_def)
  have a2a:
    "result_error (fst (processMessage sampleHandlers sampleRouter
         (sampleMessage (str ''a2a-agent'')) 9 0)) = Some (str ''a2a handler failed'')"
    using inst [where m = "sampleMessage (str ''a2a-agent'')"
                  and ag = "\<lparr> agent_id = str ''a2a-agent'', agent_config = (),
                              agent_status = str ''active'', lastActivity = 1 \<rparr>"
                  and e = "str ''a2a handler failed''" and w' = 1]
      sampleRouter_agents(5)
    by (simp add: sampleMessage_def sampleHandlers_def)
  have analysis:
    "result_error (fst (processMessage sampleHandlers sampleRouter
         (sampleMessage (str ''analysis-agent'')) 9 0)) = Some (str ''analysis handler failed'')"
    using inst [where m = "sampleMessage (str ''analysis-agent'')"
                  and ag = "\<lparr> agent_id = str ''analysis-agent'', agent_config = (),
                              agent_status = str ''active'', lastActivity = 1 \<rparr>"
                  and e = "str ''analysis handler failed''" and w' = 1]
      sampleRouter_agents(6)
    by (simp add: sampleMessage_def sampleHandlers_def)
  from ghost other student teacher a2a analysis sampleRouter_agents(1)
  show ?thesis by (simp add: sampleMessage_def)
qed

end
